theory Spec2Isabelle
  imports Complex_Main "HOL-Library.Stream"
begin

section \<open>Conventions of the embedding\<close>

text \<open>
  The rhythm generator of \<^verbatim>\<open>rythm-g.py\<close> is embedded function by function.

  \<^item> Python integers are \<^typ>\<open>int\<close>; Python floats that come from the configuration
    (\<^verbatim>\<open>bpm\<close>, \<^verbatim>\<open>fill_frequency\<close>, volumes, pans) are the rationals they denote
    (\<^typ>\<open>rat\<close>); the rounding of a float quotient to the nearest double and its
    overflow are not represented.
  \<^item> Every exception the source can raise is a value of \<open>error\<close>, and a function that
    can raise returns \<open>error + 'a\<close> with \<open>Inl\<close> for the exception.
  \<^item> The module-level generator of \<^verbatim>\<open>random\<close> is an explicit stream of raw draws that
    is threaded through every function that draws from it.
\<close>

datatype error = ZeroDivisionError | ValueError | IndexError | KeyError | OSError | TypeError

definition bindE :: "error + 'a \<Rightarrow> ('a \<Rightarrow> error + 'b) \<Rightarrow> error + 'b" where
  "bindE m f = (case m of Inl e \<Rightarrow> Inl e | Inr x \<Rightarrow> f x)"

subsection \<open>Python built-ins\<close>

text \<open>\<^verbatim>\<open>int(x)\<close> on a float truncates toward zero.\<close>

definition py_int :: "rat \<Rightarrow> int" where
  "py_int q = (if 0 \<le> q then \<lfloor>q\<rfloor> else \<lceil>q\<rceil>)"

text \<open>\<^verbatim>\<open>round(x)\<close> on a float rounds to the nearest integer, a tie to the even one.\<close>

definition py_round :: "rat \<Rightarrow> int" where
  "py_round q =
     (let f = \<lfloor>q\<rfloor>; r = q - of_int f
      in if r < 1 / 2 then f else if 1 / 2 < r then f + 1 else if even f then f else f + 1)"

text \<open>\<^verbatim>\<open>a / b\<close> raises \<^verbatim>\<open>ZeroDivisionError\<close> when \<^verbatim>\<open>b\<close> is zero.\<close>

definition py_truediv :: "rat \<Rightarrow> rat \<Rightarrow> error + rat" where
  "py_truediv a b = (if b = 0 then Inl ZeroDivisionError else Inr (a / b))"

text \<open>\<^verbatim>\<open>xs[i]\<close> and \<^verbatim>\<open>xs[i] = v\<close>: a negative index counts from the end, an index out
  of range raises \<^verbatim>\<open>IndexError\<close>.\<close>

definition py_get :: "'a list \<Rightarrow> int \<Rightarrow> error + 'a" where
  "py_get xs i =
     (let n = int (length xs); j = (if i < 0 then i + n else i)
      in if 0 \<le> j \<and> j < n then Inr (xs ! nat j) else Inl IndexError)"

definition py_set :: "'a list \<Rightarrow> int \<Rightarrow> 'a \<Rightarrow> error + 'a list" where
  "py_set xs i v =
     (let n = int (length xs); j = (if i < 0 then i + n else i)
      in if 0 \<le> j \<and> j < n then Inr (xs[nat j := v]) else Inl IndexError)"

text \<open>\<^verbatim>\<open>xs[:n]\<close>: a negative bound counts from the end; the slice never raises.\<close>

definition py_prefix :: "'a list \<Rightarrow> int \<Rightarrow> 'a list" where
  "py_prefix xs n = (if n < 0 then take (nat (int (length xs) + n)) xs else take (nat n) xs)"

text \<open>\<^verbatim>\<open>xs * k\<close>: the list repeated, empty for \<^verbatim>\<open>k \<le> 0\<close>.\<close>

definition py_repeat :: "'a list \<Rightarrow> int \<Rightarrow> 'a list" where
  "py_repeat xs k = concat (replicate (nat k) xs)"

text \<open>\<^verbatim>\<open>range(n)\<close> and \<^verbatim>\<open>range(start, stop, step)\<close>; a zero step raises
  \<^verbatim>\<open>ValueError\<close>.\<close>

definition py_range :: "int \<Rightarrow> nat list" where
  "py_range n = [0..<nat n]"

definition py_range3 :: "int \<Rightarrow> int \<Rightarrow> int \<Rightarrow> error + int list" where
  "py_range3 start stop step =
     (if step = 0 then Inl ValueError
      else if 0 < step then
        Inr (map (\<lambda>j. start + int j * step) [0..<nat ((stop - start + step - 1) div step)])
      else
        Inr (map (\<lambda>j. start + int j * step) [0..<nat ((start - stop - step - 1) div (- step))]))"

text \<open>\<^verbatim>\<open>xs.index(x)\<close> raises \<^verbatim>\<open>ValueError\<close> when \<^verbatim>\<open>x\<close> is absent.\<close>

fun py_index :: "'a list \<Rightarrow> 'a \<Rightarrow> error + nat" where
  "py_index [] x = Inl ValueError"
| "py_index (y # ys) x =
     (if y = x then Inr 0 else bindE (py_index ys x) (\<lambda>k. Inr (Suc k)))"

text \<open>A \<^verbatim>\<open>for\<close> loop whose body can raise: the first exception ends the loop.\<close>

fun foldE :: "('a \<Rightarrow> 's \<Rightarrow> error + 's) \<Rightarrow> 'a list \<Rightarrow> 's \<Rightarrow> error + 's" where
  "foldE f [] s = Inr s"
| "foldE f (x # xs) s = bindE (f x s) (foldE f xs)"

text \<open>
  A \<^verbatim>\<open>dict\<close> is an association list with distinct keys in insertion order:
  \<^verbatim>\<open>d.get(k, default)\<close>, \<^verbatim>\<open>d[k]\<close> (raising \<^verbatim>\<open>KeyError\<close>) and \<^verbatim>\<open>d[k] = v\<close>
  (an existing key keeps its position, a new key goes last).
\<close>

definition dict_get :: "('k \<times> 'v) list \<Rightarrow> 'k \<Rightarrow> 'v \<Rightarrow> 'v" where
  "dict_get d k dflt = (case map_of d k of Some v \<Rightarrow> v | None \<Rightarrow> dflt)"

definition dict_item :: "('k \<times> 'v) list \<Rightarrow> 'k \<Rightarrow> error + 'v" where
  "dict_item d k = (case map_of d k of Some v \<Rightarrow> Inr v | None \<Rightarrow> Inl KeyError)"

fun dict_set :: "('k \<times> 'v) list \<Rightarrow> 'k \<Rightarrow> 'v \<Rightarrow> ('k \<times> 'v) list" where
  "dict_set [] k v = [(k, v)]"
| "dict_set ((k', v') # d) k v =
     (if k' = k then (k, v) # d else (k', v') # dict_set d k v)"

text \<open>\<^verbatim>\<open>str.lower()\<close> on ASCII letters, \<^verbatim>\<open>str.endswith\<close> and \<^verbatim>\<open>os.path.join\<close> with
  the POSIX separator.\<close>

definition lower_char :: "char \<Rightarrow> char" where
  "lower_char c =
     (let n = (of_char c :: nat) in if 65 \<le> n \<and> n \<le> 90 then char_of (n + 32) else c)"

definition lower :: "string \<Rightarrow> string" where
  "lower s = map lower_char s"

definition endswith :: "string \<Rightarrow> string \<Rightarrow> bool" where
  "endswith s suffix =
     (length suffix \<le> length s \<and> drop (length s - length suffix) s = suffix)"

definition path_join :: "string \<Rightarrow> string \<Rightarrow> string" where
  "path_join a b = a @ ''/'' @ b"

subsection \<open>The random source\<close>

text \<open>
  The generator state is a stream of raw draws. \<^verbatim>\<open>random.random()\<close> consumes one draw
  and scales its low 53 bits into \<open>[0, 1)\<close>; \<^verbatim>\<open>random.choice(seq)\<close> consumes one draw
  and indexes the sequence with it, raising \<^verbatim>\<open>IndexError\<close> on an empty sequence.
\<close>

type_synonym rng = "nat stream"

definition random_random :: "rng \<Rightarrow> rat \<times> rng" where
  "random_random g = (of_nat (shd g mod 2 ^ 53) / 2 ^ 53, stl g)"

definition random_choice :: "'a list \<Rightarrow> rng \<Rightarrow> error + ('a \<times> rng)" where
  "random_choice xs g =
     (if xs = [] then Inl IndexError else Inr (xs ! (shd g mod length xs), stl g))"

section \<open>Pattern generation\<close>

text \<open>\<^verbatim>\<open>extend_base_pattern\<close> (lines 307-311).\<close>

definition extend_base_pattern :: "'a list \<Rightarrow> int \<Rightarrow> error + 'a list" where
  "extend_base_pattern base_pattern pattern_length =
     (if pattern_length \<le> int (length base_pattern) then
        Inr (py_prefix base_pattern pattern_length)
      else if length base_pattern = 0 then Inl ZeroDivisionError
      else Inr (py_repeat base_pattern (pattern_length div int (length base_pattern))
                @ py_prefix base_pattern (pattern_length mod int (length base_pattern))))"

text \<open>The comprehension of the \<^verbatim>\<open>simple\<close> branch (line 317): one draw per position.\<close>

fun simple_row :: "nat list \<Rightarrow> rng \<Rightarrow> int list \<times> rng" where
  "simple_row [] g = ([], g)"
| "simple_row (i # is) g =
     (let (u, g1) = random_random g;
          (row, g2) = simple_row is g1
      in ((if u < 3 / 10 then 1 else 0) # row, g2))"

text \<open>The comprehension of the \<^verbatim>\<open>medium\<close> and \<^verbatim>\<open>complex\<close> branches (lines 319 and
  323): \<^verbatim>\<open>base_pattern[i] if random.random() < p else random.choice([0, 1])\<close>.\<close>

fun mixed_row :: "rat \<Rightarrow> int list \<Rightarrow> nat list \<Rightarrow> rng \<Rightarrow> error + (int list \<times> rng)" where
  "mixed_row p base_pattern [] g = Inr ([], g)"
| "mixed_row p base_pattern (i # is) g =
     (let (u, g1) = random_random g in
      bindE (if u < p then bindE (py_get base_pattern (int i)) (\<lambda>b. Inr (b, g1))
             else random_choice [0, 1] g1)
        (\<lambda>(b, g2). bindE (mixed_row p base_pattern is g2)
           (\<lambda>(row, g3). Inr (b # row, g3))))"

text \<open>The fill loop (lines 324-325): \<^verbatim>\<open>for i in ...: pattern[i] = 1\<close>.\<close>

fun set_hits :: "int list \<Rightarrow> int list \<Rightarrow> error + int list" where
  "set_hits pattern [] = Inr pattern"
| "set_hits pattern (i # is) = bindE (py_set pattern i 1) (\<lambda>p. set_hits p is)"

text \<open>\<^verbatim>\<open>generate_pattern\<close> (lines 314-327). The stride of the fill loop is
  \<^verbatim>\<open>-int(1 / fill_frequency)\<close>.\<close>

definition generate_pattern ::
  "string \<Rightarrow> int \<Rightarrow> int list \<Rightarrow> rat \<Rightarrow> rng \<Rightarrow> error + (int list \<times> rng)" where
  "generate_pattern complexity pattern_length base_pattern0 fill_frequency g =
     bindE (extend_base_pattern base_pattern0 pattern_length) (\<lambda>base_pattern.
     bindE
       (if complexity = ''simple'' then Inr (simple_row (py_range pattern_length) g)
        else if complexity = ''medium'' then
          bindE (mixed_row (7 / 10) base_pattern (py_range pattern_length) g) (\<lambda>(pattern, g1).
          bindE (py_set pattern 0 1) (\<lambda>pattern.
          bindE (py_set pattern (pattern_length div 2) 1) (\<lambda>pattern.
          Inr (pattern, g1))))
        else
          bindE (mixed_row (1 / 2) base_pattern (py_range pattern_length) g) (\<lambda>(pattern, g1).
          bindE (py_truediv 1 fill_frequency) (\<lambda>q.
          bindE (py_range3 (pattern_length - 1) 0 (- py_int q)) (\<lambda>idx.
          bindE (set_hits pattern idx) (\<lambda>pattern.
          Inr (pattern, g1))))))
       (\<lambda>(pattern, g1).
     bindE (py_set pattern 0 1) (\<lambda>pattern.
     Inr (pattern, g1))))"

section \<open>Constants and style table\<close>

definition MIN_BPM :: rat where "MIN_BPM = 20"
definition MAX_BPM :: rat where "MAX_BPM = 300"
definition MIN_SWING :: rat where "MIN_SWING = - 50"
definition MAX_SWING :: rat where "MAX_SWING = 50"
definition DEFAULT_VOLUME :: rat where "DEFAULT_VOLUME = 80"

definition NOTE_TYPES :: "(string \<times> rat) list" where
  "NOTE_TYPES = [(''whole'', 4), (''half'', 2), (''quarter'', 1), (''eighth'', 1 / 2),
     (''sixteenth'', 1 / 4), (''thirty-second'', 1 / 8)]"

definition COMPLEXITY_LEVELS :: "string list" where
  "COMPLEXITY_LEVELS = [''simple'', ''medium'', ''complex'']"

definition TIME_SIGNATURES :: "string list" where
  "TIME_SIGNATURES = [''4/4'', ''3/4'', ''6/8'']"

definition SUBDIVISIONS :: "string list" where
  "SUBDIVISIONS = [''straight'', ''triplet'']"

definition INSTRUMENT_TO_FOLDER :: "(string \<times> string) list" where
  "INSTRUMENT_TO_FOLDER = [(''kick'', ''kicks''), (''snare'', ''snares''), (''hihat'', ''hihats''),
     (''bass'', ''bass''), (''synth'', ''synth''), (''guitar'', ''guitar''), (''clap'', ''clap''),
     (''tambourine'', ''tambourine''), (''percussion'', ''percussion'')]"

definition AVAILABLE_INSTRUMENTS :: "string list" where
  "AVAILABLE_INSTRUMENTS = map fst INSTRUMENT_TO_FOLDER"

record style_config =
  cfg_bpm :: rat
  cfg_pattern :: "(string \<times> int list) list"
  cfg_swing :: rat
  cfg_complexity :: string
  cfg_time_signature :: string

definition STYLE_CONFIGS :: "(string \<times> style_config) list" where
  "STYLE_CONFIGS =
    [(''hiphop'', \<lparr>cfg_bpm = 85,
        cfg_pattern = [(''kick'', [1, 0, 1, 0, 1, 0, 1, 0]), (''snare'', [0, 0, 0, 0, 1, 0, 0, 0]),
          (''hihat'', [1, 1, 1, 1, 1, 1, 1, 1]), (''bass'', [1, 0, 0, 0, 1, 0, 0, 0]),
          (''synth'', [0, 1, 0, 1, 0, 1, 0, 1]), (''guitar'', [0, 0, 1, 0, 0, 0, 1, 0]),
          (''percussion'', [0, 0, 0, 1, 0, 0, 0, 1])],
        cfg_swing = 20, cfg_complexity = ''medium'', cfg_time_signature = ''4/4''\<rparr>),
     (''lofi'', \<lparr>cfg_bpm = 70,
        cfg_pattern = [(''kick'', [1, 0, 0, 0, 1, 0, 0, 0]), (''snare'', [0, 0, 0, 0, 1, 0, 0, 0]),
          (''hihat'', [1, 0, 1, 0, 1, 0, 1, 0]), (''bass'', [1, 0, 0, 0, 0, 0, 0, 0]),
          (''synth'', [1, 0, 1, 0, 1, 0, 1, 0]), (''guitar'', [0, 0, 0, 0, 1, 0, 0, 0]),
          (''percussion'', [0, 0, 0, 1, 0, 0, 0, 0])],
        cfg_swing = 10, cfg_complexity = ''simple'', cfg_time_signature = ''4/4''\<rparr>),
     (''edm'', \<lparr>cfg_bpm = 128,
        cfg_pattern = [(''kick'', [1, 0, 1, 0, 1, 0, 1, 0]), (''snare'', [0, 0, 0, 0, 1, 0, 0, 0]),
          (''hihat'', [1, 1, 1, 1, 1, 1, 1, 1]), (''bass'', [1, 1, 1, 1, 1, 1, 1, 1]),
          (''synth'', [1, 0, 0, 0, 1, 0, 0, 0]), (''guitar'', [0, 0, 0, 0, 0, 0, 0, 0]),
          (''percussion'', [0, 0, 0, 0, 0, 0, 0, 1])],
        cfg_swing = 0, cfg_complexity = ''complex'', cfg_time_signature = ''4/4''\<rparr>),
     (''pop'', \<lparr>cfg_bpm = 120,
        cfg_pattern = [(''kick'', [1, 0, 1, 0, 1, 0, 1, 0]), (''snare'', [0, 0, 0, 0, 1, 0, 0, 0]),
          (''hihat'', [1, 1, 1, 1, 1, 1, 1, 1]), (''bass'', [1, 0, 0, 0, 1, 0, 0, 0]),
          (''synth'', [1, 0, 1, 0, 1, 0, 1, 0]), (''guitar'', [0, 1, 0, 1, 0, 1, 0, 1]),
          (''percussion'', [0, 0, 0, 1, 0, 0, 0, 1])],
        cfg_swing = 5, cfg_complexity = ''medium'', cfg_time_signature = ''4/4''\<rparr>)]"

section \<open>Audio buffers\<close>

text \<open>
  The audio library is outside the repository. An \<^verbatim>\<open>AudioSegment\<close> is embedded as the
  term of library calls that built it, so that no signal processing is invented:
  \<^item> \<open>Silent d r\<close> is \<^verbatim>\<open>AudioSegment.silent(duration=d, frame_rate=r)\<close>;
  \<^item> \<open>Tone f d\<close> is the sine tone of \<^verbatim>\<open>generate_synthetic_tone\<close>, built from a sample
    array at \<^verbatim>\<open>SAMPLE_RATE\<close>;
  \<^item> \<open>Wav path n r ch\<close> is \<^verbatim>\<open>AudioSegment.from_wav(path)\<close> of a file that decodes to
    \<open>n\<close> frames at the frame rate \<open>r\<close> on \<open>ch\<close> channels;
  \<^item> \<open>Gain a g\<close> is \<^verbatim>\<open>a + g\<close> (gain in dB);
  \<^item> \<open>Append a b\<close> is \<^verbatim>\<open>a + b\<close> on two segments, \<open>Prefix a ms\<close> is \<^verbatim>\<open>a[:ms]\<close>;
  \<^item> \<open>Overlay base seg g\<close> is \<^verbatim>\<open>base.overlay(seg, gain_during_overlay=g)\<close>;
  \<^item> \<open>SetChannels\<close>, \<open>SetFrameRate\<close>, \<open>SetSampleWidth\<close> and \<open>Normalize\<close> are the
    conversions of the same names.

  What the source observes of a segment is \<^verbatim>\<open>len(segment)\<close>. The library keeps a segment
  as whole frames and derives the length from them:
  \<^item> \<^verbatim>\<open>silent\<close> makes \<^verbatim>\<open>int(frame_rate * (duration / 1000.0))\<close> frames, so a duration that
    is not a whole number of frames loses the fraction;
  \<^item> \<^verbatim>\<open>len\<close> is \<^verbatim>\<open>round(1000 * (frame_count / frame_rate))\<close>;
  \<^item> concatenation adds the frames, an overlay keeps the frames of its base, a slice
    \<^verbatim>\<open>a[:ms]\<close> has the frames of \<open>ms\<close> milliseconds (at most the length of \<open>a\<close>), and
    gain, channel, sample-width and normalisation calls keep the frames;
  \<^item> two segments that are combined are first brought to the higher of their frame
    rates. A conversion to the same rate changes nothing; a conversion to another rate is
    taken to scale the frame count in proportion.
  The library computes the frame count of a silence and the length in floating point;
  both are taken exactly here.
  The operations are total, so the handlers of the source for a failing overlay or
  normalisation (lines 496-501 and 510-513) are reached only by the exceptions of the
  source itself that the embedding names.
\<close>

definition SAMPLE_RATE :: nat where "SAMPLE_RATE = 44100"

datatype audio =
    Silent int nat
  | Tone int int
  | Wav string nat nat nat
  | SetChannels nat audio
  | SetFrameRate nat audio
  | SetSampleWidth nat audio
  | Gain audio rat
  | Append audio audio
  | Prefix audio int
  | Overlay audio audio rat
  | Normalize audio

fun frame_rate :: "audio \<Rightarrow> nat" where
  "frame_rate (Silent d r) = r"
| "frame_rate (Tone f d) = SAMPLE_RATE"
| "frame_rate (Wav path n r ch) = r"
| "frame_rate (SetChannels n a) = frame_rate a"
| "frame_rate (SetFrameRate r a) = r"
| "frame_rate (SetSampleWidth w a) = frame_rate a"
| "frame_rate (Gain a g) = frame_rate a"
| "frame_rate (Append a b) = max (frame_rate a) (frame_rate b)"
| "frame_rate (Prefix a ms) = frame_rate a"
| "frame_rate (Overlay base seg g) = max (frame_rate base) (frame_rate seg)"
| "frame_rate (Normalize a) = frame_rate a"

text \<open>The frames of a duration in milliseconds at a frame rate, the milliseconds of a
  number of frames, and the frames after a change of the frame rate.\<close>

definition frames_of_ms :: "nat \<Rightarrow> int \<Rightarrow> nat" where
  "frames_of_ms rate ms = nat (py_int (of_nat rate * (of_int ms / 1000)))"

definition ms_of_frames :: "nat \<Rightarrow> nat \<Rightarrow> int" where
  "ms_of_frames rate n = py_round (1000 * (of_nat n / of_nat rate))"

definition convert_frames :: "nat \<Rightarrow> nat \<Rightarrow> nat \<Rightarrow> nat" where
  "convert_frames n rate rate' = (if rate' = rate then n else n * rate' div rate)"

fun frame_count :: "audio \<Rightarrow> nat" where
  "frame_count (Silent d r) = frames_of_ms r d"
| "frame_count (Tone f d) = frames_of_ms SAMPLE_RATE d"
| "frame_count (Wav path n r ch) = n"
| "frame_count (SetChannels n a) = frame_count a"
| "frame_count (SetFrameRate r a) = convert_frames (frame_count a) (frame_rate a) r"
| "frame_count (SetSampleWidth w a) = frame_count a"
| "frame_count (Gain a g) = frame_count a"
| "frame_count (Append a b) =
     (let r = max (frame_rate a) (frame_rate b)
      in convert_frames (frame_count a) (frame_rate a) r
         + convert_frames (frame_count b) (frame_rate b) r)"
| "frame_count (Prefix a ms) =
     (let l = ms_of_frames (frame_rate a) (frame_count a);
          stop = (if ms < 0 then max 0 (l + ms) else min ms l)
      in frames_of_ms (frame_rate a) stop)"
| "frame_count (Overlay base seg g) =
     convert_frames (frame_count base) (frame_rate base)
       (max (frame_rate base) (frame_rate seg))"
| "frame_count (Normalize a) = frame_count a"

text \<open>\<^verbatim>\<open>len(segment)\<close>, in milliseconds.\<close>

definition len :: "audio \<Rightarrow> int" where
  "len a = ms_of_frames (frame_rate a) (frame_count a)"

fun channels :: "audio \<Rightarrow> nat" where
  "channels (Silent d r) = 1"
| "channels (Tone f d) = 1"
| "channels (Wav path n r ch) = ch"
| "channels (SetChannels n a) = n"
| "channels (SetFrameRate r a) = channels a"
| "channels (SetSampleWidth w a) = channels a"
| "channels (Gain a g) = channels a"
| "channels (Append a b) = max (channels a) (channels b)"
| "channels (Prefix a ms) = channels a"
| "channels (Overlay base seg g) = max (channels base) (channels seg)"
| "channels (Normalize a) = channels a"

text \<open>The gain in dB that the effect calls have applied to the left and to the right
  channel of a segment, on top of the material they were applied to.\<close>

fun left_gain_db :: "audio \<Rightarrow> rat" where
  "left_gain_db (Gain a g) = left_gain_db a + g"
| "left_gain_db (SetChannels n a) = left_gain_db a"
| "left_gain_db a = 0"

fun right_gain_db :: "audio \<Rightarrow> rat" where
  "right_gain_db (Gain a g) = right_gain_db a + g"
| "right_gain_db (SetChannels n a) = right_gain_db a"
| "right_gain_db a = 0"

text \<open>
  The library's \<^verbatim>\<open>pan\<close> effect takes one argument, \<^verbatim>\<open>pan_amount\<close>; the effect that takes
  a left and a right gain is \<^verbatim>\<open>apply_gain_stereo\<close>. A call of \<^verbatim>\<open>pan\<close> with the keywords
  \<^verbatim>\<open>left_gain\<close> and \<^verbatim>\<open>right_gain\<close> therefore raises \<^verbatim>\<open>TypeError\<close>, whatever the segment and
  the gains.
\<close>

definition pan_left_right :: "audio \<Rightarrow> rat \<Rightarrow> rat \<Rightarrow> error + audio" where
  "pan_left_right a left_gain right_gain = Inl TypeError"

section \<open>The environment\<close>

text \<open>
  What the program reads from outside: whether the optional libraries were imported, the
  file system calls of \<^verbatim>\<open>load_samples\<close> (\<^verbatim>\<open>os.listdir\<close> raises an \<^verbatim>\<open>OSError\<close> on a
  path that cannot be listed), the decoder (\<open>None\<close> when \<^verbatim>\<open>from_wav\<close> raises, otherwise
  the frame count, the frame rate and the channel count of the file) and \<^verbatim>\<open>difflib.get_close_matches\<close> at
  \<^verbatim>\<open>n=1, cutoff=0.8\<close>.
\<close>

record env =
  numpy_available :: bool
  mido_available :: bool
  path_exists :: "string \<Rightarrow> bool"
  listdir :: "string \<Rightarrow> error + string list"
  isdir :: "string \<Rightarrow> bool"
  from_wav :: "string \<Rightarrow> (nat \<times> nat \<times> nat) option"
  get_close_matches :: "string \<Rightarrow> string list \<Rightarrow> string list"

section \<open>Sample loading\<close>

text \<open>\<^verbatim>\<open>generate_synthetic_tone\<close> (lines 170-178); without NumPy the fallback is
  \<^verbatim>\<open>AudioSegment.silent(duration=duration_ms)\<close> at the library's default rate.\<close>

definition generate_synthetic_tone :: "env \<Rightarrow> int \<Rightarrow> int \<Rightarrow> audio" where
  "generate_synthetic_tone e frequency duration_ms =
     (if \<not> numpy_available e then Silent duration_ms 11025
      else Tone frequency duration_ms)"

text \<open>\<^verbatim>\<open>create_silent_segment\<close> (lines 181-182).\<close>

definition create_silent_segment :: "int \<Rightarrow> audio" where
  "create_silent_segment duration_ms = Silent duration_ms SAMPLE_RATE"

text \<open>The loop over the files of the folder (lines 210-221): a file that fails to load
  is skipped.\<close>

fun load_files :: "env \<Rightarrow> string \<Rightarrow> string list \<Rightarrow> audio list" where
  "load_files e folder_path [] = []"
| "load_files e folder_path (file # files) =
     (if endswith (lower file) ''.wav'' then
        (case from_wav e (path_join folder_path file) of
           Some (n, r, ch) \<Rightarrow>
             SetSampleWidth 2 (SetFrameRate SAMPLE_RATE
               (SetChannels 1 (Wav (path_join folder_path file) n r ch)))
             # load_files e folder_path files
         | None \<Rightarrow> load_files e folder_path files)
      else load_files e folder_path files)"

text \<open>The fallback \<^verbatim>\<open>[generate_synthetic_tone(frequency=200 + 100 *
  AVAILABLE_INSTRUMENTS.index(instrument))]\<close> of lines 191, 202, 207 and 225.\<close>

definition synthetic_fallback :: "env \<Rightarrow> string \<Rightarrow> error + audio list" where
  "synthetic_fallback e instrument =
     bindE (py_index AVAILABLE_INSTRUMENTS instrument) (\<lambda>k.
     Inr [generate_synthetic_tone e (200 + 100 * int k) 200])"

text \<open>The folder name looked up for an instrument (line 187), the sub-directories of the
  samples directory in lower case (line 193) and the choice of the folder (lines 194-202):
  the folder itself, else the closest match, else none.\<close>

definition folder_name_of :: "string \<Rightarrow> string" where
  "folder_name_of instrument = lower (dict_get INSTRUMENT_TO_FOLDER instrument instrument)"

definition available_folders :: "env \<Rightarrow> string \<Rightarrow> string list \<Rightarrow> string list" where
  "available_folders e samples_dir entries =
     map lower (filter (\<lambda>f. isdir e (path_join samples_dir f)) entries)"

definition resolve_folder :: "env \<Rightarrow> string \<Rightarrow> string list \<Rightarrow> string option" where
  "resolve_folder e folder_name folders =
     (if folder_name \<notin> set folders then
        (case get_close_matches e folder_name folders of
           corrected_folder # _ \<Rightarrow> Some corrected_folder
         | [] \<Rightarrow> None)
      else Some folder_name)"

text \<open>\<^verbatim>\<open>load_samples\<close> (lines 185-226). The folder is listed twice, once for the
  emptiness test and once for the loop.\<close>

definition load_samples :: "env \<Rightarrow> string \<Rightarrow> error + audio list" where
  "load_samples e instrument =
     (let samples_dir = ''samples'';
          folder_name = folder_name_of instrument
      in
      if \<not> path_exists e samples_dir then synthetic_fallback e instrument
      else
        bindE (listdir e samples_dir) (\<lambda>entries.
        case resolve_folder e folder_name (available_folders e samples_dir entries) of
          None \<Rightarrow> synthetic_fallback e instrument
        | Some folder_name \<Rightarrow>
            let folder_path = path_join samples_dir folder_name in
            bindE (listdir e folder_path) (\<lambda>listing.
            if listing = [] then synthetic_fallback e instrument
            else
              bindE (listdir e folder_path) (\<lambda>files.
              let samples = load_files e folder_path files in
              if samples = [] then synthetic_fallback e instrument
              else Inr samples))))"

text \<open>The directory listings that \<^verbatim>\<open>load_samples\<close> performs for an instrument do not
  raise: the samples directory, when the path exists, can be listed, and so can the folder
  that the instrument resolves to.\<close>

definition listings_succeed :: "env \<Rightarrow> string \<Rightarrow> bool" where
  "listings_succeed e instrument =
     (if \<not> path_exists e ''samples'' then True
      else
        case listdir e ''samples'' of
          Inl err \<Rightarrow> False
        | Inr entries \<Rightarrow>
            (case resolve_folder e (folder_name_of instrument)
                    (available_folders e ''samples'' entries) of
               None \<Rightarrow> True
             | Some folder \<Rightarrow>
                 (case listdir e (path_join ''samples'' folder) of
                    Inl err \<Rightarrow> False
                  | Inr files \<Rightarrow> True)))"

text \<open>\<^verbatim>\<open>choose_sample\<close> (lines 229-230).\<close>

definition choose_sample :: "audio list \<Rightarrow> rng \<Rightarrow> error + (audio \<times> rng)" where
  "choose_sample samples g =
     (if samples \<noteq> [] then random_choice samples g
      else Inr (create_silent_segment 200, g))"

section \<open>Effects\<close>

text \<open>\<^verbatim>\<open>apply_swing\<close> (lines 233-237). No other function of the source calls it.\<close>

definition apply_swing :: "int \<Rightarrow> rat \<Rightarrow> rat \<Rightarrow> rat" where
  "apply_swing beat_idx swing_percent beat_duration_ms =
     (if swing_percent = 0 \<or> beat_idx mod 2 = 0 then 0
      else (swing_percent / 100) * (beat_duration_ms / 2))"

text \<open>\<^verbatim>\<open>apply_panning\<close> (lines 240-245).\<close>

definition apply_panning :: "audio \<Rightarrow> rat \<Rightarrow> error + audio" where
  "apply_panning audio pan =
     (if pan = 0 then Inr audio
      else
        let left_gain = - pan * 12;
            right_gain = pan * 12
        in pan_left_right (SetChannels 2 audio) left_gain right_gain)"

text \<open>\<^verbatim>\<open>apply_volume\<close> (lines 248-253); the literal \<^verbatim>\<open>0.24\<close> is \<open>24 / 100\<close>.\<close>

definition apply_volume :: "audio \<Rightarrow> rat \<Rightarrow> audio" where
  "apply_volume audio volume =
     (if volume = 100 then audio
      else
        let db_change = (volume - 100) * (24 / 100)
        in Gain audio db_change)"

section \<open>MIDI export\<close>

text \<open>
  A track is the list of messages appended to it. A note message carries its kind, note
  number, velocity and delta time (\<^verbatim>\<open>msg.time\<close>, which is 0 until it is assigned); the
  tempo meta message carries the tempo and the delta time 0 it is created with.
\<close>

datatype msg_kind = note_on | note_off

datatype midi_message = MetaSetTempo int | Message msg_kind int int int

fun msg_time :: "midi_message \<Rightarrow> int" where
  "msg_time (MetaSetTempo t) = 0"
| "msg_time (Message k n v t) = t"

fun set_time :: "midi_message \<Rightarrow> int \<Rightarrow> midi_message" where
  "set_time (MetaSetTempo t) d = MetaSetTempo t"
| "set_time (Message k n v t) d = Message k n v d"

fun is_kind :: "msg_kind \<Rightarrow> midi_message \<Rightarrow> bool" where
  "is_kind k (MetaSetTempo t) = False"
| "is_kind k (Message k' n v t) = (k' = k)"

text \<open>The library's \<^verbatim>\<open>ticks_per_beat\<close> of a new file and \<^verbatim>\<open>bpm2tempo\<close> (microseconds
  per beat, rounded to the nearest integer; it divides by \<^verbatim>\<open>bpm\<close>).\<close>

definition ticks_per_beat :: rat where "ticks_per_beat = 480"

definition bpm2tempo :: "rat \<Rightarrow> error + int" where
  "bpm2tempo bpm = bindE (py_truediv 60000000 bpm) (\<lambda>q. Inr (round q))"

text \<open>The events of one pattern row (lines 348-352).\<close>

definition row_events :: "int \<Rightarrow> int \<Rightarrow> int list \<Rightarrow> (int \<times> midi_message) list" where
  "row_events note_duration midi_note pattern =
     concat (map (\<lambda>(i, hit).
        if hit \<noteq> 0 then
          (let start_time = int i * note_duration
           in [(start_time, Message note_on midi_note 100 0),
               (start_time + note_duration, Message note_off midi_note 0 0)])
        else [])
       (enumerate 0 pattern))"

text \<open>The loop over the instruments (lines 346-352).\<close>

definition collect_events ::
  "int \<Rightarrow> (string \<times> int list) list \<Rightarrow> error + (int \<times> midi_message) list" where
  "collect_events note_duration instrument_patterns =
     foldE (\<lambda>(inst, pattern) events.
        bindE (py_index AVAILABLE_INSTRUMENTS inst) (\<lambda>k.
        let midi_note = 36 + int k
        in Inr (events @ row_events note_duration midi_note pattern)))
       instrument_patterns []"

text \<open>The emission loop (lines 356-360).\<close>

fun emit_events :: "int \<Rightarrow> (int \<times> midi_message) list \<Rightarrow> midi_message list" where
  "emit_events last_time [] = []"
| "emit_events last_time ((event_time, msg) # events) =
     (let delta_time = event_time - last_time
      in set_time msg delta_time # emit_events event_time events)"

text \<open>The body of the \<^verbatim>\<open>try\<close> block of \<^verbatim>\<open>generate_midi\<close> (lines 335-360): the track
  that is handed to \<^verbatim>\<open>midi.save\<close>. \<^verbatim>\<open>events.sort(key=...)\<close> is a stable sort.\<close>

definition midi_track ::
  "(string \<times> int list) list \<Rightarrow> rat \<Rightarrow> string \<Rightarrow> string \<Rightarrow> error + midi_message list" where
  "midi_track instrument_patterns bpm note_type subdivision =
     bindE (bpm2tempo bpm) (\<lambda>tempo.
     bindE (dict_item NOTE_TYPES note_type) (\<lambda>note_fraction.
     let note_duration =
           py_int (ticks_per_beat * note_fraction * (if subdivision = ''triplet'' then 2 / 3 else 1))
     in
     bindE (collect_events note_duration instrument_patterns) (\<lambda>events.
     Inr (MetaSetTempo tempo # emit_events 0 (sort_key fst events)))))"

text \<open>\<^verbatim>\<open>generate_midi\<close> (lines 330-374): nothing is written when the MIDI library is
  missing or when the body raises (the exception is caught and reported).\<close>

definition generate_midi ::
  "env \<Rightarrow> (string \<times> int list) list \<Rightarrow> int \<Rightarrow> rat \<Rightarrow> string \<Rightarrow> string
     \<Rightarrow> midi_message list option" where
  "generate_midi e instrument_patterns pattern_length bpm note_type subdivision =
     (if \<not> mido_available e then None
      else
        case midi_track instrument_patterns bpm note_type subdivision of
          Inl err \<Rightarrow> None
        | Inr track \<Rightarrow> Some track)"

text \<open>The number of hits of a set of pattern rows.\<close>

definition hits :: "int list \<Rightarrow> nat" where
  "hits row = length (filter (\<lambda>hit. hit \<noteq> 0) row)"

definition total_hits :: "(string \<times> int list) list \<Rightarrow> nat" where
  "total_hits instrument_patterns = sum_list (map (\<lambda>(inst, row). hits row) instrument_patterns)"

section \<open>Rhythm generation\<close>

text \<open>The input validation of \<^verbatim>\<open>generate_rhythm\<close> (lines 405-429).\<close>

record settings =
  v_style :: string
  v_bpm :: rat
  v_note_type :: string
  v_swing :: rat
  v_complexity :: string
  v_pattern_length :: int
  v_time_signature :: string
  v_subdivision :: string

definition validate_inputs ::
  "string \<Rightarrow> rat \<Rightarrow> string \<Rightarrow> rat \<Rightarrow> string \<Rightarrow> int \<Rightarrow> string \<Rightarrow> string \<Rightarrow> error + settings" where
  "validate_inputs style0 bpm0 note_type0 swing0 complexity0 pattern_length0 time_signature0
       subdivision0 =
     (let style = (if map_of STYLE_CONFIGS style0 = None then ''pop'' else style0) in
      bindE (if bpm0 < MIN_BPM \<or> bpm0 > MAX_BPM then
               bindE (dict_item STYLE_CONFIGS style) (\<lambda>c. Inr (cfg_bpm c))
             else Inr bpm0) (\<lambda>bpm.
      let note_type = (if map_of NOTE_TYPES note_type0 = None then ''quarter'' else note_type0);
          swing = (if swing0 < MIN_SWING \<or> swing0 > MAX_SWING then 0 else swing0);
          complexity =
            (if complexity0 \<notin> set COMPLEXITY_LEVELS then ''medium'' else complexity0);
          pattern_length =
            (if pattern_length0 < 4 \<or> pattern_length0 > 16 then 8 else pattern_length0);
          time_signature =
            (if time_signature0 \<notin> set TIME_SIGNATURES then ''4/4'' else time_signature0);
          subdivision =
            (if subdivision0 \<notin> set SUBDIVISIONS then ''straight'' else subdivision0)
      in Inr \<lparr>v_style = style, v_bpm = bpm, v_note_type = note_type, v_swing = swing,
              v_complexity = complexity, v_pattern_length = pattern_length,
              v_time_signature = time_signature, v_subdivision = subdivision\<rparr>))"

text \<open>The beat duration (lines 432-434).\<close>

definition calc_beat_duration :: "rat \<Rightarrow> string \<Rightarrow> string \<Rightarrow> error + int" where
  "calc_beat_duration bpm note_type subdivision =
     bindE (py_truediv 60000 bpm) (\<lambda>q.
     bindE (dict_item NOTE_TYPES note_type) (\<lambda>note_fraction.
     let beat_duration_ms = py_int (q * note_fraction)
     in Inr (if subdivision = ''triplet'' then py_int (of_int beat_duration_ms * 2 / 3)
             else beat_duration_ms)))"

text \<open>The pattern loop (lines 443-447).\<close>

definition make_patterns ::
  "string \<Rightarrow> string list \<Rightarrow> string \<Rightarrow> int \<Rightarrow> rat \<Rightarrow> rng
     \<Rightarrow> error + ((string \<times> int list) list \<times> rng)" where
  "make_patterns style instruments complexity pattern_length fill_frequency g =
     bindE (dict_item STYLE_CONFIGS style) (\<lambda>c.
     let base_patterns = cfg_pattern c in
     foldE (\<lambda>inst (instrument_patterns, g).
        let base_pattern = dict_get base_patterns inst (py_repeat [0] 8) in
        bindE (generate_pattern complexity pattern_length base_pattern fill_frequency g)
          (\<lambda>(row, g'). Inr (dict_set instrument_patterns inst row, g')))
       instruments ([], g))"

text \<open>The sample loop (lines 456-462), over a copy of \<^verbatim>\<open>instruments\<close>; it yields
  \<^verbatim>\<open>instrument_samples\<close> and the updated \<^verbatim>\<open>instruments\<close>.\<close>

definition load_all_samples ::
  "env \<Rightarrow> string list \<Rightarrow> error + ((string \<times> audio list) list \<times> string list)" where
  "load_all_samples e instruments =
     foldE (\<lambda>inst (instrument_samples, instruments).
        bindE (load_samples e inst) (\<lambda>samples.
        if samples \<noteq> [] then Inr (dict_set instrument_samples inst samples, instruments)
        else Inr (instrument_samples, remove1 inst instruments)))
       instruments ([], instruments)"

text \<open>The body of the inner loop for one instrument at one beat (lines 474-501). The
  effects are applied before the \<^verbatim>\<open>try\<close> block, so an exception of theirs leaves
  \<^verbatim>\<open>generate_rhythm\<close>. The stem is extended inside the \<^verbatim>\<open>try\<close> block, after the beat
  layer was overlaid, so a missing stem entry leaves the overlaid beat layer and skips the
  stem.\<close>

definition mix_instrument ::
  "int \<Rightarrow> (string \<times> int list) list \<Rightarrow> (string \<times> rat) list \<Rightarrow> (string \<times> rat) list \<Rightarrow> nat
     \<Rightarrow> string \<times> audio list \<Rightarrow> audio \<times> (string \<times> audio) list \<times> rng
     \<Rightarrow> error + (audio \<times> (string \<times> audio) list \<times> rng)" where
  "mix_instrument beat_duration_ms instrument_patterns volumes pan_settings beat_idx entry st =
     (case entry of (instrument, samples) \<Rightarrow>
      case st of (beat_layer, instrument_stems, g) \<Rightarrow>
      case map_of instrument_patterns instrument of
        None \<Rightarrow> Inr st
      | Some row \<Rightarrow>
          bindE (py_get row (int beat_idx)) (\<lambda>hit.
          if hit = 0 then Inr st
          else
            bindE (choose_sample samples g) (\<lambda>(sample, g').
            let volume = dict_get volumes instrument DEFAULT_VOLUME;
                sample = apply_volume sample volume;
                pan = dict_get pan_settings instrument 0
            in
            bindE (apply_panning sample pan) (\<lambda>sample.
            let sample =
                  (if len sample < beat_duration_ms then
                     Append sample (create_silent_segment (beat_duration_ms - len sample))
                   else if len sample > beat_duration_ms then Prefix sample beat_duration_ms
                   else sample);
                beat_layer = Overlay beat_layer sample (- 6);
                stem_segment = Overlay (create_silent_segment beat_duration_ms) sample 0
            in
            case map_of instrument_stems instrument of
              None \<Rightarrow> Inr (beat_layer, instrument_stems, g')
            | Some stem \<Rightarrow>
                Inr (beat_layer,
                     dict_set instrument_stems instrument (Append stem stem_segment), g')))))"

text \<open>The body of the beat loop (lines 471-518): the state is \<^verbatim>\<open>beat_layers\<close>,
  \<^verbatim>\<open>instrument_stems\<close> and the random source.\<close>

definition mix_beat ::
  "int \<Rightarrow> (string \<times> audio list) list \<Rightarrow> (string \<times> int list) list \<Rightarrow> (string \<times> rat) list
     \<Rightarrow> (string \<times> rat) list \<Rightarrow> nat \<Rightarrow> audio list \<times> (string \<times> audio) list \<times> rng
     \<Rightarrow> error + (audio list \<times> (string \<times> audio) list \<times> rng)" where
  "mix_beat beat_duration_ms instrument_samples instrument_patterns volumes pan_settings beat_idx st =
     (case st of (beat_layers, instrument_stems, g) \<Rightarrow>
      bindE (foldE (mix_instrument beat_duration_ms instrument_patterns volumes pan_settings beat_idx)
               instrument_samples (create_silent_segment beat_duration_ms, instrument_stems, g))
        (\<lambda>(beat_layer, instrument_stems, g').
      let beat_layer =
            Normalize (SetSampleWidth 2 (SetFrameRate SAMPLE_RATE (SetChannels 1 beat_layer)))
      in Inr (beat_layers @ [beat_layer], instrument_stems, g')))"

text \<open>The beat loop over \<^verbatim>\<open>range(pattern_length)\<close> restricted to a list of beat
  indices, so that the state after any beat can be named.\<close>

definition mix_beats ::
  "int \<Rightarrow> (string \<times> audio list) list \<Rightarrow> (string \<times> int list) list \<Rightarrow> (string \<times> rat) list
     \<Rightarrow> (string \<times> rat) list \<Rightarrow> nat list \<Rightarrow> audio list \<times> (string \<times> audio) list \<times> rng
     \<Rightarrow> error + (audio list \<times> (string \<times> audio) list \<times> rng)" where
  "mix_beats beat_duration_ms instrument_samples instrument_patterns volumes pan_settings beats st =
     foldE (mix_beat beat_duration_ms instrument_samples instrument_patterns volumes pan_settings)
       beats st"

text \<open>The initial stems (line 469).\<close>

definition initial_stems :: "string list \<Rightarrow> (string \<times> audio) list" where
  "initial_stems instruments =
     foldl (\<lambda>d inst. dict_set d inst (create_silent_segment 0)) [] instruments"

text \<open>Loop assembly (lines 521-528).\<close>

definition assemble_loop :: "audio list \<Rightarrow> int \<Rightarrow> rat \<Rightarrow> int \<Rightarrow> int \<Rightarrow> audio" where
  "assemble_loop beat_layers loop_repeats master_volume pattern_length beat_duration_ms =
     (let loop = foldl Append (create_silent_segment 0)
                   (concat (replicate (nat loop_repeats) beat_layers));
          loop = apply_volume loop master_volume;
          expected_duration = pattern_length * beat_duration_ms * loop_repeats
      in if len loop < expected_duration then
           Append loop (create_silent_segment (expected_duration - len loop))
         else loop)"

text \<open>
  \<^verbatim>\<open>generate_rhythm\<close> (lines 377-535). It returns either the pair of line 465 (a silent
  loop and no stems) or the triple of line 535. The \<^verbatim>\<open>preview\<close> flag and the console
  output do not enter the returned values and are left out. The validated swing is not
  read after the validation.
\<close>

datatype rhythm =
    NoInstruments audio
  | Rhythm audio "(string \<times> audio) list" "(string \<times> int list) list"

definition generate_rhythm ::
  "env \<Rightarrow> string \<Rightarrow> string list \<Rightarrow> rat \<Rightarrow> string \<Rightarrow> rat \<Rightarrow> string \<Rightarrow> (string \<times> rat) list \<Rightarrow> int
     \<Rightarrow> string \<Rightarrow> string \<Rightarrow> rat \<Rightarrow> rat \<Rightarrow> (string \<times> rat) list \<Rightarrow> int \<Rightarrow> rng
     \<Rightarrow> error + (rhythm \<times> rng)" where
  "generate_rhythm e style instruments bpm note_type swing complexity volumes pattern_length
       time_signature subdivision fill_frequency master_volume pan_settings loop_repeats g =
     bindE (validate_inputs style bpm note_type swing complexity pattern_length time_signature
              subdivision) (\<lambda>v.
     bindE (calc_beat_duration (v_bpm v) (v_note_type v) (v_subdivision v)) (\<lambda>beat_duration_ms.
     bindE (make_patterns (v_style v) instruments (v_complexity v) (v_pattern_length v)
              fill_frequency g) (\<lambda>(instrument_patterns, g1).
     bindE (load_all_samples e instruments) (\<lambda>(instrument_samples, instruments).
     if instrument_samples = [] then
       Inr (NoInstruments
              (create_silent_segment (v_pattern_length v * beat_duration_ms * loop_repeats)), g1)
     else
       bindE (mix_beats beat_duration_ms instrument_samples instrument_patterns volumes
                pan_settings (py_range (v_pattern_length v))
                ([], initial_stems instruments, g1)) (\<lambda>(beat_layers, instrument_stems, g2).
       Inr (Rhythm (assemble_loop beat_layers loop_repeats master_volume (v_pattern_length v)
                      beat_duration_ms)
              instrument_stems instrument_patterns, g2))))))"

text \<open>The length of the loop of a result, on either return path.\<close>

fun loop_length :: "rhythm \<Rightarrow> int" where
  "loop_length (NoInstruments loop) = len loop"
| "loop_length (Rhythm loop instrument_stems instrument_patterns) = len loop"

text \<open>The length of every stem and the pattern rows of a result.\<close>

fun stem_lengths :: "rhythm \<Rightarrow> (string \<times> int) list" where
  "stem_lengths (NoInstruments loop) = []"
| "stem_lengths (Rhythm loop instrument_stems instrument_patterns) =
     map (\<lambda>(inst, stem). (inst, len stem)) instrument_stems"

fun pattern_rows :: "rhythm \<Rightarrow> (string \<times> int list) list" where
  "pattern_rows (NoInstruments loop) = []"
| "pattern_rows (Rhythm loop instrument_stems instrument_patterns) = instrument_patterns"

section \<open>Example environments\<close>

text \<open>No samples directory; NumPy and the MIDI library are installed.\<close>

definition env_no_samples :: env where
  "env_no_samples =
     \<lparr>numpy_available = True, mido_available = True,
      path_exists = (\<lambda>p. False),
      listdir = (\<lambda>p. Inl OSError),
      isdir = (\<lambda>p. False),
      from_wav = (\<lambda>p. None),
      get_close_matches = (\<lambda>word possibilities. [])\<rparr>"

text \<open>A samples directory with a \<^verbatim>\<open>kicks\<close> folder whose only wav file does not decode;
  NumPy is not installed.\<close>

definition env_undecodable :: env where
  "env_undecodable =
     \<lparr>numpy_available = False, mido_available = True,
      path_exists = (\<lambda>p. p = ''samples''),
      listdir = (\<lambda>p. if p = ''samples'' then Inr [''kicks'', ''notes.txt'']
                      else if p = ''samples/kicks'' then Inr [''broken.wav'', ''readme.md'']
                      else Inl OSError),
      isdir = (\<lambda>p. p = ''samples/kicks''),
      from_wav = (\<lambda>p. None),
      get_close_matches = (\<lambda>word possibilities. [])\<rparr>"

text \<open>A samples directory on a case-sensitive file system whose kick folder is named
  \<^verbatim>\<open>Kicks\<close> and holds one wav file of one second: the path \<^verbatim>\<open>samples/Kicks\<close> can be
  listed, no other spelling of it exists.\<close>

definition env_capital_folder :: env where
  "env_capital_folder =
     \<lparr>numpy_available = True, mido_available = True,
      path_exists = (\<lambda>p. p = ''samples'' \<or> p = ''samples/Kicks''
                        \<or> p = ''samples/Kicks/kick1.wav''),
      listdir = (\<lambda>p. if p = ''samples'' then Inr [''Kicks'']
                      else if p = ''samples/Kicks'' then Inr [''kick1.wav'']
                      else Inl OSError),
      isdir = (\<lambda>p. p = ''samples'' \<or> p = ''samples/Kicks''),
      from_wav = (\<lambda>p. if p = ''samples/Kicks/kick1.wav'' then Some (44100, 44100, 1) else None),
      get_close_matches = (\<lambda>word possibilities. [])\<rparr>"

section \<open>Example buffers\<close>

text \<open>The buffers of a run with the synthetic tone of the kick at the default volume and a
  beat of \<open>d\<close> milliseconds: the tone padded to the beat, a beat layer with and without
  the hit, and the segment appended to the stem.\<close>

definition example_sample :: "int \<Rightarrow> audio" where
  "example_sample d = Append (Gain (Tone 200 200) (- (24 / 5))) (Silent (d - 200) 44100)"

definition example_hit_layer :: "int \<Rightarrow> audio" where
  "example_hit_layer d =
     Normalize (SetSampleWidth 2 (SetFrameRate 44100 (SetChannels 1
       (Overlay (Silent d 44100) (example_sample d) (- 6)))))"

definition example_rest_layer :: "int \<Rightarrow> audio" where
  "example_rest_layer d =
     Normalize (SetSampleWidth 2 (SetFrameRate 44100 (SetChannels 1 (Silent d 44100))))"

definition example_stem_segment :: "int \<Rightarrow> audio" where
  "example_stem_segment d = Overlay (Silent d 44100) (example_sample d) 0"

section \<open>Basic facts\<close>

lemma bindE_Inr [simp]: "bindE (Inr x) f = f x"
  by (simp add: bindE_def)

lemma bindE_Inl [simp]: "bindE (Inl e) f = Inl e"
  by (simp add: bindE_def)

lemma length_py_prefix: "0 \<le> n \<Longrightarrow> length (py_prefix xs n) = min (length xs) (nat n)"
  by (simp add: py_prefix_def)

lemma length_py_repeat: "length (py_repeat xs k) = nat k * length xs"
  by (simp add: py_repeat_def length_concat sum_list_replicate)

lemma extend_base_pattern_length:
  assumes "base_pattern \<noteq> []" and "0 \<le> n"
  shows "\<exists>b. extend_base_pattern base_pattern n = Inr b \<and> length b = nat n"
proof (cases "n \<le> int (length base_pattern)")
  case True
  with assms show ?thesis
    by (simp add: extend_base_pattern_def length_py_prefix)
next
  case False
  let ?l = "int (length base_pattern)"
  have lpos: "0 < ?l" using assms by simp
  have m: "0 \<le> n mod ?l" "n mod ?l < ?l" using lpos by simp_all
  have d: "0 \<le> n div ?l" using assms lpos by (simp add: pos_imp_zdiv_nonneg_iff)
  have "nat (n div ?l) * length base_pattern + min (length base_pattern) (nat (n mod ?l)) = nat n"
  proof -
    have "int (nat (n div ?l) * length base_pattern + min (length base_pattern) (nat (n mod ?l)))
          = (n div ?l) * ?l + n mod ?l"
      using m d by (auto simp: min_def)
    also have "\<dots> = n" by simp
    finally show ?thesis using assms by linarith
  qed
  with False assms m show ?thesis
    by (simp add: extend_base_pattern_def length_py_prefix length_py_repeat)
qed

lemma simple_row_length: "length (fst (simple_row is g)) = length is"
  by (induction "is" arbitrary: g) (simp_all add: split_def Let_def)

lemma mixed_row_length:
  assumes "\<forall>i\<in>set is. i < length base"
  shows "\<exists>row g'. mixed_row p base is g = Inr (row, g') \<and> length row = length is"
  using assms
proof (induction "is" arbitrary: g)
  case Nil
  then show ?case by simp
next
  case (Cons i "is")
  obtain u g1 where r: "random_random g = (u, g1)" by (cases "random_random g")
  have "\<exists>b g2. (if u < p then bindE (py_get base (int i)) (\<lambda>b. Inr (b, g1))
             else random_choice [0, 1] g1) = Inr (b, g2)"
    using Cons.prems by (simp add: py_get_def random_choice_def)
  then obtain b g2 where s: "(if u < p then bindE (py_get base (int i)) (\<lambda>b. Inr (b, g1))
             else random_choice [0, 1] g1) = Inr (b, g2)" by blast
  from Cons.IH[of g2] Cons.prems obtain row g3 where
    t: "mixed_row p base is g2 = Inr (row, g3)" "length row = length is" by auto
  show ?case using r s t by simp
qed

lemma py_set_ok:
  "0 \<le> i \<Longrightarrow> i < int (length xs) \<Longrightarrow> py_set xs i v = Inr (xs[nat i := v])"
  by (simp add: py_set_def)

lemma set_hits_ok:
  assumes "\<forall>i\<in>set is. 0 \<le> i \<and> i < int (length p)"
  shows "\<exists>p'. set_hits p is = Inr p' \<and> length p' = length p"
  using assms
proof (induction "is" arbitrary: p)
  case Nil
  then show ?case by simp
next
  case (Cons i "is")
  then have "py_set p i 1 = Inr (p[nat i := 1])" by (simp add: py_set_ok)
  moreover from Cons.IH[of "p[nat i := 1]"] Cons.prems
  obtain p' where "set_hits (p[nat i := 1]) is = Inr p'" "length p' = length p" by auto
  ultimately show ?case by simp
qed

lemma py_range3_down:
  assumes "step < 0"
  shows "\<exists>idx. py_range3 start stop step = Inr idx \<and> (\<forall>i\<in>set idx. stop < i \<and> i \<le> start)"
proof -
  define k where "k = - step"
  define B where "B = start - stop + k - 1"
  have kpos: "0 < k" using assms by (simp add: k_def)
  have c: "(start - stop - step - 1) div (- step) = B div k"
    by (simp add: k_def B_def)
  have "stop < start + int j * step \<and> start + int j * step \<le> start" if "j < nat (B div k)" for j
  proof -
    from that have "int j + 1 \<le> B div k" by simp
    then have "(int j + 1) * k \<le> B div k * k"
      using kpos by (simp add: mult_right_mono)
    moreover have "B div k * k + B mod k = B" by simp
    moreover have "0 \<le> B mod k" using kpos by simp
    ultimately have "(int j + 1) * k \<le> B" by linarith
    then have "int j * k < start - stop" by (simp add: algebra_simps B_def)
    moreover have "0 \<le> int j * k" using kpos by simp
    ultimately show ?thesis by (simp add: algebra_simps k_def)
  qed
  then show ?thesis using assms by (auto simp: py_range3_def c)
qed


lemma final_downbeat:
  assumes "0 < length pattern"
  shows "\<exists>row. bindE (py_set pattern 0 1) (\<lambda>pattern. Inr (pattern, g1)) = Inr (row, g1)
           \<and> length row = length pattern \<and> row ! 0 = (1::int)"
  using assms by (simp add: py_set_def)

lemma py_int_reciprocal:
  assumes "0 < f" and "f \<le> 1"
  shows "1 \<le> py_int (1 / f)"
proof -
  have "1 \<le> 1 / f" using assms by simp
  then have "1 \<le> \<lfloor>1 / f\<rfloor>" by linarith
  moreover have "0 \<le> 1 / f" using assms by simp
  ultimately show ?thesis by (simp add: py_int_def)
qed

section \<open>Pattern rows\<close>

text \<open>
  Claim C2. For every complexity among \<^verbatim>\<open>simple\<close>, \<^verbatim>\<open>medium\<close> and \<^verbatim>\<open>complex\<close>, every
  pattern length from 4 to 16 and every non-empty base pattern, \<^verbatim>\<open>generate_pattern\<close>
  returns a row of exactly that length whose position 0 is a hit. The claim leaves the
  fill frequency open; the theorem covers every fill frequency in \<open>(0, 1]\<close>, which
  includes the default \<open>0.2\<close> of the signature, and the \<^verbatim>\<open>simple\<close> and \<^verbatim>\<open>medium\<close>
  branches at any fill frequency, since they do not read it.
\<close>

theorem generate_pattern_length_downbeat:
  assumes len: "4 \<le> pattern_length" "pattern_length \<le> 16"
      and base: "base_pattern \<noteq> []"
      and cx: "complexity \<in> {''simple'', ''medium'', ''complex''}"
      and ff: "complexity = ''complex'' \<longrightarrow> 0 < fill_frequency \<and> fill_frequency \<le> 1"
  shows "\<exists>row g'. generate_pattern complexity pattern_length base_pattern fill_frequency g
             = Inr (row, g')
           \<and> int (length row) = pattern_length \<and> row ! 0 = 1"
proof -
  let ?n = "nat pattern_length"
  from extend_base_pattern_length[OF base, of pattern_length] len
  obtain b where b: "extend_base_pattern base_pattern pattern_length = Inr b" "length b = ?n"
    by auto
  have idx: "\<forall>i\<in>set (py_range pattern_length). i < length b"
    using b by (simp add: py_range_def)
  have "\<exists>pattern g1.
      (if complexity = ''simple'' then Inr (simple_row (py_range pattern_length) g)
        else if complexity = ''medium'' then
          bindE (mixed_row (7 / 10) b (py_range pattern_length) g) (\<lambda>(pattern, g1).
          bindE (py_set pattern 0 1) (\<lambda>pattern.
          bindE (py_set pattern (pattern_length div 2) 1) (\<lambda>pattern.
          Inr (pattern, g1))))
        else
          bindE (mixed_row (1 / 2) b (py_range pattern_length) g) (\<lambda>(pattern, g1).
          bindE (py_truediv 1 fill_frequency) (\<lambda>q.
          bindE (py_range3 (pattern_length - 1) 0 (- py_int q)) (\<lambda>idx.
          bindE (set_hits pattern idx) (\<lambda>pattern.
          Inr (pattern, g1)))))) = Inr (pattern, g1) \<and> length pattern = ?n"
    (is "\<exists>pattern g1. ?body = _ \<and> _")
  proof -
    consider (simple) "complexity = ''simple''" | (medium) "complexity = ''medium''"
      | (complex) "complexity = ''complex''" using cx by auto
    then show ?thesis
    proof cases
      case simple
      obtain row g1 where r: "simple_row (py_range pattern_length) g = (row, g1)"
        by (cases "simple_row (py_range pattern_length) g")
      with simple_row_length[of "py_range pattern_length" g]
      have "length row = ?n" by (simp add: py_range_def)
      with simple r show ?thesis by simp
    next
      case medium
      from mixed_row_length[OF idx, of "7 / 10" g]
      obtain row g1 where r: "mixed_row (7 / 10) b (py_range pattern_length) g = Inr (row, g1)"
        "length row = ?n" by (auto simp: py_range_def)
      have h: "0 \<le> pattern_length div 2" "pattern_length div 2 < pattern_length"
        using len by simp_all
      have "py_set row 0 1 = Inr (row[0 := 1])" using r len by (simp add: py_set_def)
      moreover have "py_set (row[0 := 1]) (pattern_length div 2) 1
            = Inr (row[0 := 1, nat (pattern_length div 2) := 1])"
        using r len h by (simp add: py_set_def)
      ultimately show ?thesis using medium r by simp
    next
      case complex
      from mixed_row_length[OF idx, of "1 / 2" g]
      obtain row g1 where r: "mixed_row (1 / 2) b (py_range pattern_length) g = Inr (row, g1)"
        "length row = ?n" by (auto simp: py_range_def)
      from complex ff have f: "0 < fill_frequency" "fill_frequency \<le> 1" by simp_all
      then have q: "py_truediv 1 fill_frequency = Inr (1 / fill_frequency)"
        by (simp add: py_truediv_def)
      have "- py_int (1 / fill_frequency) < 0"
        using py_int_reciprocal[OF f] by simp
      from py_range3_down[OF this, of "pattern_length - 1" 0]
      obtain idx where i: "py_range3 (pattern_length - 1) 0 (- py_int (1 / fill_frequency)) = Inr idx"
        "\<forall>i\<in>set idx. 0 < i \<and> i \<le> pattern_length - 1" by blast
      have "\<forall>i\<in>set idx. 0 \<le> i \<and> i < int (length row)"
        using i(2) r(2) len by auto
      from set_hits_ok[OF this]
      obtain p' where p: "set_hits row idx = Inr p'" "length p' = length row" by blast
      show ?thesis using complex r q i(1) p by simp
    qed
  qed
  then obtain pattern g1 where body: "?body = Inr (pattern, g1)" "length pattern = ?n" by blast
  from final_downbeat[of pattern g1] body(2) len
  obtain row where fin: "bindE (py_set pattern 0 1) (\<lambda>pattern. Inr (pattern, g1)) = Inr (row, g1)"
    "length row = length pattern" "row ! 0 = 1" by auto
  have "generate_pattern complexity pattern_length base_pattern fill_frequency g = Inr (row, g1)"
    unfolding generate_pattern_def using b(1) body(1) fin(1) by simp
  with fin body(2) len show ?thesis by simp
qed





lemma py_range_4: "py_range 4 = [0, 1, 2, 3]"
  by code_simp

lemma py_range_8: "py_range 8 = [0, 1, 2, 3, 4, 5, 6, 7]"
  by code_simp

lemma py_int_5: "py_int 5 = 5"
  by (simp add: py_int_def)

lemma py_range3_7_0_5: "py_range3 7 0 (- 5) = Inr [7, 2]"
  by code_simp

lemmas pattern_eval = generate_pattern_def extend_base_pattern_def py_prefix_def py_repeat_def
  py_truediv_def py_get_def py_set_def random_random_def random_choice_def Let_def

lemma complex_run:
  "generate_pattern ''complex'' 8 [1, 0, 1, 0, 1, 0, 1, 0] (1 / 5) (sconst 0)
     = Inr ([1, 0, 1, 0, 1, 0, 1, 1], sconst 0)"
  by (simp add: pattern_eval py_range_8 py_int_5 py_range3_7_0_5)

theorem generate_pattern_length_downbeat_witness:
  "(4::int) \<le> 8 \<and> (8::int) \<le> 16 \<and> [1, 0, 1, 0, 1, 0, 1, 0] \<noteq> ([]::int list)
     \<and> ''complex'' \<in> {''simple'', ''medium'', ''complex''}
     \<and> (0::rat) < 1 / 5 \<and> (1::rat) / 5 \<le> 1
     \<and> (\<exists>row g'. generate_pattern ''complex'' 8 [1, 0, 1, 0, 1, 0, 1, 0] (1 / 5) (sconst 0)
            = Inr (row, g') \<and> int (length row) = 8 \<and> row ! 0 = 1)"
  using generate_pattern_length_downbeat
    [of 8 "[1, 0, 1, 0, 1, 0, 1, 0]" "''complex''" "1 / 5" "sconst 0"]
  by simp

text \<open>
  Claim C10. For every fill frequency in the documented range 0.0 to 1.0 the
  \<^verbatim>\<open>complex\<close> branch is claimed to return a row without error. At the fill frequency
  0.0, which the prompt of \<^verbatim>\<open>main\<close> accepts, the stride \<^verbatim>\<open>int(1 / fill_frequency)\<close>
  divides by zero and \<^verbatim>\<open>generate_pattern\<close> raises.
\<close>

theorem generate_pattern_fill_zero_raises:
  "generate_pattern ''complex'' 8 [1, 0, 1, 0, 1, 0, 1, 0] 0 (sconst 0) = Inl ZeroDivisionError"
  by (simp add: pattern_eval py_range_8)

section \<open>Effects\<close>

text \<open>
  Claim C6. \<^verbatim>\<open>apply_volume(buffer, 100)\<close> returns the buffer unchanged; for every volume
  the gain change applied is \<open>(volume - 100) \<times> 0.24\<close> dB on both channels, and the length
  and the channel count are kept; at volume 0 the buffer is the input with a gain of
  exactly \<open>-24\<close> dB.
\<close>

theorem apply_volume_gain:
  "apply_volume audio 100 = audio
   \<and> left_gain_db (apply_volume audio volume) = left_gain_db audio + (volume - 100) * (24 / 100)
   \<and> right_gain_db (apply_volume audio volume) = right_gain_db audio + (volume - 100) * (24 / 100)
   \<and> len (apply_volume audio volume) = len audio
   \<and> channels (apply_volume audio volume) = channels audio
   \<and> apply_volume audio 0 = Gain audio (- 24)"
  by (simp add: apply_volume_def Let_def len_def)

lemma apply_panning_raises:
  "pan \<noteq> 0 \<Longrightarrow> apply_panning audio pan = Inl TypeError"
  by (simp add: apply_panning_def pan_left_right_def Let_def)

text \<open>
  Claim C7. \<^verbatim>\<open>apply_panning(buffer, 0)\<close> returns the buffer unchanged, and for every pan
  other than 0 it is claimed to return a two-channel buffer with the left gain
  \<open>-pan \<times> 12\<close> dB and the right gain \<open>pan \<times> 12\<close> dB. The first half holds. For a pan
  other than 0 line 245 calls the library's \<^verbatim>\<open>pan\<close> with the keywords \<^verbatim>\<open>left_gain\<close> and
  \<^verbatim>\<open>right_gain\<close>, which it does not take: at the pan 0.3 of the default configuration the
  call raises and no buffer is returned.
\<close>

theorem apply_panning_keywords_raise:
  "apply_panning audio 0 = Inr audio \<and> apply_panning audio (3 / 10) = Inl TypeError"
  by (simp add: apply_panning_def pan_left_right_def Let_def)

section \<open>Input validation\<close>


lemma validated_style_known:
  "\<exists>c. map_of STYLE_CONFIGS (if map_of STYLE_CONFIGS s = None then ''pop'' else s) = Some c"
proof (cases "map_of STYLE_CONFIGS s")
  case None
  then show ?thesis by (simp add: STYLE_CONFIGS_def)
next
  case (Some c)
  then show ?thesis by simp
qed

lemma validate_inputs_eq:
  assumes c: "map_of STYLE_CONFIGS (if map_of STYLE_CONFIGS style = None then ''pop'' else style)
                = Some c"
  shows "validate_inputs style bpm note_type swing complexity pattern_length time_signature
            subdivision =
         Inr \<lparr>v_style = (if map_of STYLE_CONFIGS style = None then ''pop'' else style),
              v_bpm = (if bpm < MIN_BPM \<or> bpm > MAX_BPM then cfg_bpm c else bpm),
              v_note_type = (if map_of NOTE_TYPES note_type = None then ''quarter'' else note_type),
              v_swing = (if swing < MIN_SWING \<or> swing > MAX_SWING then 0 else swing),
              v_complexity =
                (if complexity \<notin> set COMPLEXITY_LEVELS then ''medium'' else complexity),
              v_pattern_length =
                (if pattern_length < 4 \<or> pattern_length > 16 then 8 else pattern_length),
              v_time_signature =
                (if time_signature \<notin> set TIME_SIGNATURES then ''4/4'' else time_signature),
              v_subdivision =
                (if subdivision \<notin> set SUBDIVISIONS then ''straight'' else subdivision)\<rparr>"
proof -
  let ?style = "if map_of STYLE_CONFIGS style = None then ''pop'' else style"
  have inner: "(if bpm < MIN_BPM \<or> bpm > MAX_BPM then
               bindE (dict_item STYLE_CONFIGS ?style) (\<lambda>c. Inr (cfg_bpm c))
             else Inr bpm) = Inr (if bpm < MIN_BPM \<or> bpm > MAX_BPM then cfg_bpm c else bpm)"
    using c by (simp only: dict_item_def option.case bindE_Inr if_distrib[of Inr, symmetric])
  show ?thesis
    unfolding validate_inputs_def Let_def inner by (simp only: bindE_Inr)
qed




text \<open>
  Claim C9. For any two swing values, \<^verbatim>\<open>generate_rhythm\<close> on the same other
  parameters and the same random source returns the same loop, stems and patterns (and
  leaves the random source in the same state): the swing does not reach any output.
\<close>

theorem swing_not_observable:
  "generate_rhythm e style instruments bpm note_type swing1 complexity volumes
       pattern_length time_signature subdivision fill_frequency master_volume pan_settings
       loop_repeats g
   = generate_rhythm e style instruments bpm note_type swing2 complexity volumes
       pattern_length time_signature subdivision fill_frequency master_volume pan_settings
       loop_repeats g"
proof -
  from validated_style_known[of style] obtain c where
    c: "map_of STYLE_CONFIGS (if map_of STYLE_CONFIGS style = None then ''pop'' else style) = Some c"
    by blast
  show ?thesis
    unfolding generate_rhythm_def
    by (simp only: validate_inputs_eq[OF c] bindE_Inr settings.simps)
qed

section \<open>Sample loading\<close>

lemma py_index_mem:
  "x \<in> set xs \<Longrightarrow> \<exists>k. py_index xs x = Inr k"
proof (induction xs)
  case Nil
  then show ?case by simp
next
  case (Cons y ys)
  show ?case
  proof (cases "y = x")
    case True
    then show ?thesis by simp
  next
    case False
    with Cons obtain k where "py_index ys x = Inr k" by auto
    with False show ?thesis by simp
  qed
qed

lemma synthetic_fallback_single:
  assumes "instrument \<in> set AVAILABLE_INSTRUMENTS"
  shows "\<exists>tone. synthetic_fallback e instrument = Inr [tone]"
proof -
  from py_index_mem[OF assms] obtain k where "py_index AVAILABLE_INSTRUMENTS instrument = Inr k"
    by blast
  then show ?thesis by (simp add: synthetic_fallback_def)
qed

text \<open>When the directory listings of the run do not raise, every path of
  \<^verbatim>\<open>load_samples\<close> ends in a non-empty list: the loaded samples, or one synthetic tone.\<close>

lemma load_samples_non_empty_if_listed:
  assumes inst: "instrument \<in> set AVAILABLE_INSTRUMENTS"
      and ls: "listings_succeed e instrument"
  shows "\<exists>samples. load_samples e instrument = Inr samples \<and> samples \<noteq> []"
proof -
  from synthetic_fallback_single[OF inst, of e]
  obtain tone where fb: "synthetic_fallback e instrument = Inr [tone]" by blast
  show ?thesis
  proof (cases "path_exists e ''samples''")
    case False
    then show ?thesis by (simp add: load_samples_def fb)
  next
    case True
    with ls obtain entries where en: "listdir e ''samples'' = Inr entries"
      by (auto simp: listings_succeed_def split: sum.splits)
    show ?thesis
    proof (cases "resolve_folder e (folder_name_of instrument)
                    (available_folders e ''samples'' entries)")
      case None
      with True en show ?thesis by (simp add: load_samples_def fb)
    next
      case (Some folder)
      with ls True en obtain files where fi: "listdir e (path_join ''samples'' folder) = Inr files"
        by (auto simp: listings_succeed_def split: sum.splits)
      show ?thesis
      proof (cases "files = [] \<or> load_files e (path_join ''samples'' folder) files = []")
        case True
        with \<open>path_exists e ''samples''\<close> en Some fi show ?thesis
          by (auto simp: load_samples_def fb Let_def)
      next
        case False
        with \<open>path_exists e ''samples''\<close> en Some fi show ?thesis
          by (auto simp: load_samples_def Let_def)
      qed
    qed
  qed
qed

lemma kick_available: "''kick'' \<in> set AVAILABLE_INSTRUMENTS"
  by (simp add: AVAILABLE_INSTRUMENTS_def INSTRUMENT_TO_FOLDER_def)

lemma folder_name_of_kick: "folder_name_of ''kick'' = ''kicks''"
  by code_simp

lemma lower_entries: "lower ''kicks'' = ''kicks''" "lower ''broken.wav'' = ''broken.wav''"
  "lower ''readme.md'' = ''readme.md''"
  by code_simp+

lemma listings_succeed_undecodable: "listings_succeed env_undecodable ''kick''"
  by (simp add: listings_succeed_def env_undecodable_def folder_name_of_kick
      available_folders_def resolve_folder_def path_join_def lower_entries)

lemma load_samples_undecodable:
  "load_samples env_undecodable ''kick'' = Inr [Silent 200 11025]"
  by (simp add: load_samples_def env_undecodable_def folder_name_of_kick
      available_folders_def resolve_folder_def path_join_def lower_entries endswith_def
      synthetic_fallback_def generate_synthetic_tone_def AVAILABLE_INSTRUMENTS_def
      INSTRUMENT_TO_FOLDER_def)

lemma load_samples_no_samples:
  "load_samples env_no_samples ''kick'' = Inr [Tone 200 200]"
  by (simp add: load_samples_def env_no_samples_def synthetic_fallback_def
      generate_synthetic_tone_def AVAILABLE_INSTRUMENTS_def INSTRUMENT_TO_FOLDER_def)

lemma lower_Kicks: "lower ''Kicks'' = ''kicks''"
  by code_simp

text \<open>
  Claim C3. For every instrument of the supported list and every directory state,
  \<^verbatim>\<open>load_samples\<close> is claimed to return a non-empty list. Line 193 compares the folder
  names in lower case and lines 204-205 list the lower-cased name. With a folder stored as
  \<^verbatim>\<open>samples/Kicks\<close> on a case-sensitive file system, the kick resolves to \<^verbatim>\<open>kicks\<close>,
  the listing of \<^verbatim>\<open>samples/kicks\<close> raises and no list is returned, although the folder
  holds a sample that decodes.
\<close>

theorem load_samples_capital_folder_raises:
  "load_samples env_capital_folder ''kick'' = Inl OSError"
  by (simp add: load_samples_def env_capital_folder_def folder_name_of_kick
      available_folders_def resolve_folder_def path_join_def lower_Kicks)

section \<open>The MIDI event sequence\<close>

lemma note_fraction_positive:
  assumes "dict_item NOTE_TYPES note_type = Inr f"
  shows "0 < f"
  using assms by (auto simp: dict_item_def NOTE_TYPES_def split: if_splits)

lemma py_int_nonneg: "0 \<le> q \<Longrightarrow> 0 \<le> py_int q"
  by (simp add: py_int_def)

lemma length_filter_concat_map:
  "length (filter Q (concat (map f xs))) = sum_list (map (\<lambda>x. length (filter Q (f x))) xs)"
  by (induction xs) simp_all

lemma sum_hits_enumerate:
  "sum_list (map (\<lambda>(i, hit). if hit \<noteq> (0::int) then 1 else 0) (enumerate k pattern))
     = hits pattern"
  by (induction pattern arbitrary: k) (simp_all add: hits_def)

lemma row_events_facts:
  assumes "0 \<le> nd"
  shows "\<forall>ev\<in>set (row_events nd n pattern). 0 \<le> fst ev"
    and "length (filter (\<lambda>ev. is_kind note_on (snd ev)) (row_events nd n pattern)) = hits pattern"
    and "length (filter (\<lambda>ev. is_kind note_off (snd ev)) (row_events nd n pattern)) = hits pattern"
proof -
  define step where "step = (\<lambda>(i::nat, hit::int).
        if hit \<noteq> 0 then
          (let start_time = int i * nd
           in [(start_time, Message note_on n 100 0),
               (start_time + nd, Message note_off n 0 0)])
        else [])"
  have r: "row_events nd n pattern = concat (map step (enumerate 0 pattern))"
    by (simp add: row_events_def step_def)
  have t: "\<forall>ev\<in>set (step x). 0 \<le> fst ev" for x
    using assms by (cases x) (auto simp: step_def Let_def)
  have on: "length (filter (\<lambda>ev. is_kind note_on (snd ev)) (step x))
              = (case x of (i, hit) \<Rightarrow> if hit \<noteq> 0 then 1 else 0)" for x
    by (cases x) (simp add: step_def Let_def)
  have off: "length (filter (\<lambda>ev. is_kind note_off (snd ev)) (step x))
              = (case x of (i, hit) \<Rightarrow> if hit \<noteq> 0 then 1 else 0)" for x
    by (cases x) (simp add: step_def Let_def)
  show "\<forall>ev\<in>set (row_events nd n pattern). 0 \<le> fst ev"
    unfolding r using t by auto
  show "length (filter (\<lambda>ev. is_kind note_on (snd ev)) (row_events nd n pattern)) = hits pattern"
    unfolding r length_filter_concat_map on by (rule sum_hits_enumerate)
  show "length (filter (\<lambda>ev. is_kind note_off (snd ev)) (row_events nd n pattern)) = hits pattern"
    unfolding r length_filter_concat_map off by (rule sum_hits_enumerate)
qed

lemma collect_step_facts:
  assumes nd: "0 \<le> nd"
      and run: "foldE (\<lambda>(inst, pattern) events.
                  bindE (py_index AVAILABLE_INSTRUMENTS inst) (\<lambda>k.
                  let midi_note = 36 + int k
                  in Inr (events @ row_events nd midi_note pattern))) pats acc = Inr evs"
      and acc: "\<forall>ev\<in>set acc. 0 \<le> fst ev"
  shows "(\<forall>ev\<in>set evs. 0 \<le> fst ev)
     \<and> length (filter (\<lambda>ev. is_kind note_on (snd ev)) evs)
         = length (filter (\<lambda>ev. is_kind note_on (snd ev)) acc) + total_hits pats
     \<and> length (filter (\<lambda>ev. is_kind note_off (snd ev)) evs)
         = length (filter (\<lambda>ev. is_kind note_off (snd ev)) acc) + total_hits pats"
  using run acc
proof (induction pats arbitrary: acc)
  case Nil
  then show ?case by (simp add: total_hits_def)
next
  case (Cons p pats)
  obtain inst pattern where p: "p = (inst, pattern)" by (cases p)
  from Cons.prems(1) p obtain k where k: "py_index AVAILABLE_INSTRUMENTS inst = Inr k"
    by (cases "py_index AVAILABLE_INSTRUMENTS inst") simp_all
  let ?acc = "acc @ row_events nd (36 + int k) pattern"
  from Cons.prems(1) p k have run': "foldE (\<lambda>(inst, pattern) events.
                  bindE (py_index AVAILABLE_INSTRUMENTS inst) (\<lambda>k.
                  let midi_note = 36 + int k
                  in Inr (events @ row_events nd midi_note pattern))) pats ?acc = Inr evs"
    by (simp add: Let_def)
  have acc': "\<forall>ev\<in>set ?acc. 0 \<le> fst ev"
    using Cons.prems(2) row_events_facts(1)[OF nd] by auto
  from Cons.IH[OF run' acc'] row_events_facts(2,3)[OF nd, of "36 + int k" pattern] p
  show ?case by (simp add: total_hits_def)
qed

lemma emit_events_facts:
  assumes "sorted (map fst events)" and "\<forall>ev\<in>set events. last_time \<le> fst ev"
  shows "(\<forall>m\<in>set (emit_events last_time events). 0 \<le> msg_time m)
     \<and> length (filter (is_kind kind) (emit_events last_time events))
         = length (filter (\<lambda>ev. is_kind kind (snd ev)) events)"
  using assms
proof (induction events arbitrary: last_time)
  case Nil
  then show ?case by simp
next
  case (Cons ev events)
  obtain t m where ev: "ev = (t, m)" by (cases ev)
  from Cons.prems ev have s: "sorted (map fst events)" "\<forall>e\<in>set events. t \<le> fst e"
    "last_time \<le> t" by auto
  have m: "0 \<le> msg_time (set_time m (t - last_time))" "is_kind kind (set_time m (t - last_time)) = is_kind kind m"
    using s(3) by (cases m; simp)+
  from Cons.IH[OF s(1,2)] m ev show ?case by (simp add: Let_def)
qed

text \<open>
  Claim C5. For every map of instrument patterns, the event sequence that
  \<^verbatim>\<open>generate_midi\<close> emits has a non-negative delta time on every message, and it has as
  many note-on messages as note-off messages, namely the total number of hits of all rows.
\<close>

theorem generate_midi_deltas_and_counts:
  assumes "generate_midi e instrument_patterns pattern_length bpm note_type subdivision = Some track"
  shows "(\<forall>m\<in>set track. 0 \<le> msg_time m)
     \<and> length (filter (is_kind note_on) track) = total_hits instrument_patterns
     \<and> length (filter (is_kind note_off) track) = total_hits instrument_patterns"
proof -
  from assms have tr: "midi_track instrument_patterns bpm note_type subdivision = Inr track"
    by (auto simp: generate_midi_def split: if_splits sum.splits)
  then obtain tempo where tempo: "bpm2tempo bpm = Inr tempo"
    by (cases "bpm2tempo bpm") (simp_all add: midi_track_def)
  from tr tempo obtain f where f: "dict_item NOTE_TYPES note_type = Inr f"
    by (cases "dict_item NOTE_TYPES note_type") (simp_all add: midi_track_def)
  define nd where "nd = py_int (ticks_per_beat * f * (if subdivision = ''triplet'' then 2 / 3 else 1))"
  from tr tempo f obtain evs where evs: "collect_events nd instrument_patterns = Inr evs"
    by (cases "collect_events nd instrument_patterns") (simp_all add: midi_track_def nd_def Let_def)
  from tr tempo f evs have track: "track = MetaSetTempo tempo # emit_events 0 (sort_key fst evs)"
    by (simp add: midi_track_def nd_def Let_def)
  have "0 \<le> ticks_per_beat * f * (if subdivision = ''triplet'' then 2 / 3 else 1)"
    using note_fraction_positive[OF f] by (simp add: ticks_per_beat_def)
  then have nd: "0 \<le> nd" unfolding nd_def by (rule py_int_nonneg)
  from collect_step_facts[OF nd evs[unfolded collect_events_def]]
  have c: "\<forall>ev\<in>set evs. 0 \<le> fst ev"
    "length (filter (\<lambda>ev. is_kind note_on (snd ev)) evs) = total_hits instrument_patterns"
    "length (filter (\<lambda>ev. is_kind note_off (snd ev)) evs) = total_hits instrument_patterns"
    by simp_all
  have s: "sorted (map fst (sort_key fst evs))" "\<forall>ev\<in>set (sort_key fst evs). 0 \<le> fst ev"
    using c(1) by simp_all
  have cnt: "length (filter (\<lambda>ev. is_kind kind (snd ev)) (sort_key fst evs))
      = length (filter (\<lambda>ev. is_kind kind (snd ev)) evs)" for kind
    by (simp add: filter_sort)
  from emit_events_facts[OF s, of note_on] emit_events_facts[OF s, of note_off] cnt c(2,3) track
  show ?thesis by simp
qed

lemma midi_run:
  "generate_midi env_no_samples [(''kick'', [1, 0, 1, 0]), (''snare'', [1, 1, 0, 0])] 4 120
       ''quarter'' ''straight''
   = Some [MetaSetTempo 500000,
       Message note_on 36 100 0, Message note_on 37 100 0,
       Message note_off 36 0 480, Message note_off 37 0 0, Message note_on 37 100 0,
       Message note_on 36 100 480, Message note_off 37 0 0,
       Message note_off 36 0 480]"
  by (simp add: generate_midi_def env_no_samples_def midi_track_def bpm2tempo_def py_truediv_def
      dict_item_def NOTE_TYPES_def ticks_per_beat_def py_int_def collect_events_def
      AVAILABLE_INSTRUMENTS_def INSTRUMENT_TO_FOLDER_def row_events_def Let_def)

theorem generate_midi_deltas_and_counts_witness:
  "generate_midi env_no_samples [(''kick'', [1, 0, 1, 0]), (''snare'', [1, 1, 0, 0])] 4 120
       ''quarter'' ''straight''
   = Some [MetaSetTempo 500000,
       Message note_on 36 100 0, Message note_on 37 100 0,
       Message note_off 36 0 480, Message note_off 37 0 0, Message note_on 37 100 0,
       Message note_on 36 100 480, Message note_off 37 0 0,
       Message note_off 36 0 480]
   \<and> list_all (\<lambda>m. 0 \<le> msg_time m) [MetaSetTempo 500000,
       Message note_on 36 100 0, Message note_on 37 100 0,
       Message note_off 36 0 480, Message note_off 37 0 0, Message note_on 37 100 0,
       Message note_on 36 100 480, Message note_off 37 0 0,
       Message note_off 36 0 480]
   \<and> total_hits [(''kick'', [1, 0, 1, 0]), (''snare'', [1, 1, 0, 0])] = 4
   \<and> length (filter (is_kind note_on) [MetaSetTempo 500000,
       Message note_on 36 100 0, Message note_on 37 100 0,
       Message note_off 36 0 480, Message note_off 37 0 0, Message note_on 37 100 0,
       Message note_on 36 100 480, Message note_off 37 0 0,
       Message note_off 36 0 480]) = 4"
  using generate_midi_deltas_and_counts [OF midi_run] midi_run
  by (simp add: total_hits_def hits_def)

section \<open>Lengths in frames\<close>

lemma py_round_unique:
  assumes "\<bar>q - of_int l\<bar> < 1 / 2"
  shows "py_round q = l"
proof (cases "of_int l \<le> q")
  case True
  with assms have "\<lfloor>q\<rfloor> = l" by (intro floor_unique) auto
  moreover from True assms have "q - of_int l < 1 / 2" by auto
  ultimately show ?thesis by (simp add: py_round_def Let_def)
next
  case False
  with assms have b: "of_int (l - 1) \<le> q" "q < of_int (l - 1) + 1" by auto
  then have f: "\<lfloor>q\<rfloor> = l - 1" by (intro floor_unique)
  from False assms have "1 / 2 < q - of_int (l - 1)" by auto
  with f show ?thesis by (simp add: py_round_def Let_def)
qed

lemma ms_of_frames_unique:
  assumes "0 < rate" and "\<bar>2000 * int n - 2 * l * int rate\<bar> < int rate"
  shows "ms_of_frames rate n = l"
proof -
  define R :: rat where "R = of_nat rate"
  define X :: rat where "X = of_int (2000 * int n - 2 * l * int rate)"
  have r: "0 < R" using assms(1) by (simp add: R_def)
  have e: "1000 * (of_nat n / of_nat rate) - of_int l = X / (2 * R)"
    using r by (simp add: R_def X_def field_simps)
  have "\<bar>X\<bar> < R"
    unfolding X_def R_def using assms(2)
    by (metis of_int_abs of_int_less_iff of_int_of_nat_eq)
  then have "\<bar>X\<bar> / (2 * R) < 1 / 2" using r by (simp add: field_simps)
  moreover have "\<bar>X / (2 * R)\<bar> = \<bar>X\<bar> / (2 * R)" using r by (simp add: abs_divide)
  ultimately have "\<bar>1000 * (of_nat n / of_nat rate) - of_int l\<bar> < (1::rat) / 2"
    by (simp only: e)
  then show ?thesis unfolding ms_of_frames_def by (rule py_round_unique)
qed

lemma frames_of_ms_div:
  assumes "0 \<le> ms"
  shows "frames_of_ms rate ms = nat (int rate * ms div 1000)"
proof -
  have "(of_nat rate :: rat) * (of_int ms / 1000) = of_int (int rate * ms) / of_int 1000"
    by simp
  moreover have "(0::rat) \<le> of_nat rate * (of_int ms / 1000)" using assms by simp
  ultimately show ?thesis
    unfolding frames_of_ms_def py_int_def by (simp only: floor_divide_of_int_eq if_True)
qed

lemma frames_of_ms_values:
  "frames_of_ms 44100 0 = 0" "frames_of_ms 44100 4 = 176" "frames_of_ms 44100 200 = 8820"
  "frames_of_ms 44100 268 = 11818" "frames_of_ms 44100 300 = 13230"
  "frames_of_ms 44100 468 = 20638" "frames_of_ms 44100 500 = 22050"
  by (simp_all add: frames_of_ms_div)

lemma ms_of_frames_values:
  "ms_of_frames 44100 0 = 0" "ms_of_frames 44100 8820 = 200" "ms_of_frames 44100 20638 = 468"
  "ms_of_frames 44100 22050 = 500" "ms_of_frames 44100 44100 = 1000"
  "ms_of_frames 44100 88200 = 2000" "ms_of_frames 44100 5118224 = 116060"
  "ms_of_frames 44100 5118400 = 116063"
  by (rule ms_of_frames_unique; simp)+

lemma frames_foldl_Append:
  assumes "frame_rate a = r" and "\<forall>x\<in>set xs. frame_rate x = r"
  shows "frame_rate (foldl Append a xs) = r
     \<and> frame_count (foldl Append a xs) = frame_count a + sum_list (map frame_count xs)"
  using assms
proof (induction xs arbitrary: a)
  case Nil
  then show ?case by simp
next
  case (Cons x xs)
  have "frame_rate (Append a x) = r" "frame_count (Append a x) = frame_count a + frame_count x"
    using Cons.prems by (simp_all add: convert_frames_def)
  with Cons.IH[of "Append a x"] Cons.prems show ?case by simp
qed

lemma sum_frames_replicate:
  "sum_list (map frame_count (concat (replicate k xs))) = k * sum_list (map frame_count xs)"
  by (induction k) simp_all

lemma frames_apply_volume:
  "frame_rate (apply_volume a v) = frame_rate a" "frame_count (apply_volume a v) = frame_count a"
  by (simp_all add: apply_volume_def Let_def)

text \<open>The length of the assembled loop, from the frames of the beat layers: the frames
  of all repeats are rounded to milliseconds, and a loop that is then too short gets the
  frames of the missing milliseconds once.\<close>

lemma len_assemble_loop:
  assumes "\<forall>l\<in>set beat_layers. frame_rate l = SAMPLE_RATE"
  shows "len (assemble_loop beat_layers loop_repeats master_volume pattern_length beat_duration_ms)
     = (let frames = nat loop_repeats * sum_list (map frame_count beat_layers);
            loop_ms = ms_of_frames SAMPLE_RATE frames;
            expected_duration = pattern_length * beat_duration_ms * loop_repeats
        in if loop_ms < expected_duration then
             ms_of_frames SAMPLE_RATE
               (frames + frames_of_ms SAMPLE_RATE (expected_duration - loop_ms))
           else loop_ms)"
proof -
  define loop where "loop = apply_volume (foldl Append (create_silent_segment 0)
      (concat (replicate (nat loop_repeats) beat_layers))) master_volume"
  have z: "frame_rate (create_silent_segment 0) = SAMPLE_RATE"
    "frame_count (create_silent_segment 0) = 0"
    by (simp_all add: create_silent_segment_def frames_of_ms_div)
  have a: "\<forall>x\<in>set (concat (replicate (nat loop_repeats) beat_layers)). frame_rate x = SAMPLE_RATE"
    using assms by auto
  from frames_foldl_Append[OF z(1) a] z(2)
  have l: "frame_rate loop = SAMPLE_RATE"
    "frame_count loop = nat loop_repeats * sum_list (map frame_count beat_layers)"
    by (simp_all add: loop_def frames_apply_volume sum_frames_replicate)
  have pad: "len (Append loop (create_silent_segment k))
      = ms_of_frames SAMPLE_RATE (frame_count loop + frames_of_ms SAMPLE_RATE k)" for k
    by (simp add: len_def l(1) create_silent_segment_def convert_frames_def)
  have "assemble_loop beat_layers loop_repeats master_volume pattern_length beat_duration_ms
      = (if len loop < pattern_length * beat_duration_ms * loop_repeats then
           Append loop (create_silent_segment
             (pattern_length * beat_duration_ms * loop_repeats - len loop))
         else loop)"
    by (simp add: assemble_loop_def loop_def Let_def)
  then show ?thesis
    by (simp add: pad Let_def) (simp add: len_def l)
qed

lemma padding_values:
  "frames_of_ms 44100 1 = 44" "ms_of_frames 44100 660416 = 14975"
  "ms_of_frames 44100 660460 = 14976"
  by (simp add: frames_of_ms_div) (rule ms_of_frames_unique; simp)+

section \<open>Two runs of the generator\<close>

lemmas len_eval = len_def SAMPLE_RATE_def convert_frames_def frames_of_ms_values
  ms_of_frames_values Let_def

lemmas mix_eval = mix_beats_def mix_beat_def mix_instrument_def initial_stems_def
  choose_sample_def random_choice_def dict_get_def DEFAULT_VOLUME_def apply_volume_def
  apply_panning_def create_silent_segment_def py_get_def

lemmas example_defs = example_sample_def example_hit_layer_def example_rest_layer_def
  example_stem_segment_def

lemma mix_run_500:
  "mix_beats 500 [(''kick'', [Tone 200 200])] [(''kick'', [1, 0, 1, 0])] [] [] [0, 1, 2, 3]
     ([], initial_stems [''kick''], sconst 0)
   = Inr ([example_hit_layer 500, example_rest_layer 500, example_hit_layer 500,
           example_rest_layer 500],
          [(''kick'', Append (Append (Silent 0 44100) (example_stem_segment 500))
                        (example_stem_segment 500))], sconst 0)"
  by (simp add: mix_eval example_defs len_eval)

lemma mix_run_468:
  "mix_beats 468 [(''kick'', [Tone 200 200])] [(''kick'', [1, 0, 1, 0, 1, 0, 1, 0])] [] []
     [0, 1, 2, 3, 4, 5, 6, 7] ([], initial_stems [''kick''], sconst 0)
   = Inr ([example_hit_layer 468, example_rest_layer 468, example_hit_layer 468,
           example_rest_layer 468, example_hit_layer 468, example_rest_layer 468,
           example_hit_layer 468, example_rest_layer 468],
          [(''kick'', Append (Append (Append (Append (Silent 0 44100)
              (example_stem_segment 468)) (example_stem_segment 468))
              (example_stem_segment 468)) (example_stem_segment 468))], sconst 0)"
  by (simp add: mix_eval example_defs len_eval)

lemma example_layer_frames:
  "frame_rate (example_hit_layer d) = SAMPLE_RATE" "frame_rate (example_rest_layer d) = SAMPLE_RATE"
  "frame_count (example_hit_layer 500) = 22050" "frame_count (example_rest_layer 500) = 22050"
  "frame_count (example_hit_layer 468) = 20638" "frame_count (example_rest_layer 468) = 20638"
  by (simp_all add: example_defs len_eval)

lemma example_stem_500:
  "len (Append (Append (Silent 0 44100) (example_stem_segment 500)) (example_stem_segment 500))
     = 1000"
  by (simp add: example_defs len_eval)

lemma validate_pop:
  "validate_inputs ''pop'' 120 ''quarter'' 0 ''medium'' 4 ''4/4'' ''straight''
     = Inr \<lparr>v_style = ''pop'', v_bpm = 120, v_note_type = ''quarter'', v_swing = 0,
            v_complexity = ''medium'', v_pattern_length = 4, v_time_signature = ''4/4'',
            v_subdivision = ''straight''\<rparr>"
  by (simp add: validate_inputs_def STYLE_CONFIGS_def MIN_BPM_def MAX_BPM_def NOTE_TYPES_def
      MIN_SWING_def MAX_SWING_def COMPLEXITY_LEVELS_def TIME_SIGNATURES_def SUBDIVISIONS_def)

lemma validate_edm:
  "validate_inputs ''edm'' 128 ''quarter'' 0 ''medium'' 8 ''4/4'' ''straight''
     = Inr \<lparr>v_style = ''edm'', v_bpm = 128, v_note_type = ''quarter'', v_swing = 0,
            v_complexity = ''medium'', v_pattern_length = 8, v_time_signature = ''4/4'',
            v_subdivision = ''straight''\<rparr>"
  by (simp add: validate_inputs_def STYLE_CONFIGS_def MIN_BPM_def MAX_BPM_def NOTE_TYPES_def
      MIN_SWING_def MAX_SWING_def COMPLEXITY_LEVELS_def TIME_SIGNATURES_def SUBDIVISIONS_def)

lemma floor_rat_of_ints: "\<lfloor>(of_int a :: rat) / of_int b\<rfloor> = a div b"
  by (rule floor_divide_of_int_eq)

lemma beat_500: "calc_beat_duration 120 ''quarter'' ''straight'' = Inr 500"
  by (simp add: calc_beat_duration_def py_truediv_def dict_item_def NOTE_TYPES_def py_int_def)

lemma beat_468: "calc_beat_duration 128 ''quarter'' ''straight'' = Inr 468"
proof -
  have "\<lfloor>(60000::rat) / 128\<rfloor> = 468"
    using floor_rat_of_ints[of 60000 128] by simp
  then show ?thesis
    by (simp add: calc_beat_duration_def py_truediv_def dict_item_def NOTE_TYPES_def py_int_def)
qed

lemma patterns_kick_pop:
  "make_patterns ''pop'' [''kick''] ''medium'' 4 (1 / 5) (sconst 0)
     = Inr ([(''kick'', [1, 0, 1, 0])], sconst 0)"
  by (simp add: make_patterns_def dict_item_def dict_get_def STYLE_CONFIGS_def
      pattern_eval py_range_4)

lemma patterns_kick_edm:
  "make_patterns ''edm'' [''kick''] ''medium'' 8 (1 / 5) (sconst 0)
     = Inr ([(''kick'', [1, 0, 1, 0, 1, 0, 1, 0])], sconst 0)"
  by (simp add: make_patterns_def dict_item_def dict_get_def STYLE_CONFIGS_def
      pattern_eval py_range_8)

lemma samples_kick:
  "load_all_samples env_no_samples [''kick''] = Inr ([(''kick'', [Tone 200 200])], [''kick''])"
  by (simp add: load_all_samples_def load_samples_no_samples)

lemma rhythm_run_pop:
  "generate_rhythm env_no_samples ''pop'' [''kick''] 120 ''quarter'' 0 ''medium'' [] 4 ''4/4''
     ''straight'' (1 / 5) 100 [] 1 (sconst 0)
   = Inr (Rhythm
       (assemble_loop [example_hit_layer 500, example_rest_layer 500, example_hit_layer 500,
          example_rest_layer 500] 1 100 4 500)
       [(''kick'', Append (Append (Silent 0 44100) (example_stem_segment 500))
                     (example_stem_segment 500))]
       [(''kick'', [1, 0, 1, 0])], sconst 0)"
  by (simp add: generate_rhythm_def validate_pop beat_500 patterns_kick_pop samples_kick
      py_range_4 mix_run_500[unfolded One_nat_def])

lemma rhythm_run_edm:
  "generate_rhythm env_no_samples ''edm'' [''kick''] 128 ''quarter'' 0 ''medium'' [] 8 ''4/4''
     ''straight'' (1 / 5) 100 [] 31 (sconst 0)
   = Inr (Rhythm
       (assemble_loop [example_hit_layer 468, example_rest_layer 468, example_hit_layer 468,
          example_rest_layer 468, example_hit_layer 468, example_rest_layer 468,
          example_hit_layer 468, example_rest_layer 468] 31 100 8 468)
       [(''kick'', Append (Append (Append (Append (Silent 0 44100)
              (example_stem_segment 468)) (example_stem_segment 468))
              (example_stem_segment 468)) (example_stem_segment 468))]
       [(''kick'', [1, 0, 1, 0, 1, 0, 1, 0])], sconst 0)"
  by (simp add: generate_rhythm_def validate_edm beat_468 patterns_kick_edm samples_kick
      py_range_8 mix_run_468[unfolded One_nat_def])

lemma loop_pop:
  "len (assemble_loop [example_hit_layer 500, example_rest_layer 500, example_hit_layer 500,
          example_rest_layer 500] 1 100 4 500) = 2000"
  by (subst len_assemble_loop) (simp_all add: example_layer_frames len_eval)

lemma loop_edm:
  "len (assemble_loop [example_hit_layer 468, example_rest_layer 468, example_hit_layer 468,
          example_rest_layer 468, example_hit_layer 468, example_rest_layer 468,
          example_hit_layer 468, example_rest_layer 468] 31 100 8 468) = 116063"
  by (subst len_assemble_loop) (simp_all add: example_layer_frames len_eval)

text \<open>With 4 repeats of the same 8 beats the layers are 14975 ms long and the padding of
  1 ms brings the loop to the expected 14976 ms.\<close>

lemma loop_padding_repairs:
  "len (assemble_loop [example_hit_layer 468, example_rest_layer 468, example_hit_layer 468,
          example_rest_layer 468, example_hit_layer 468, example_rest_layer 468,
          example_hit_layer 468, example_rest_layer 468] 4 100 8 468) = 8 * 468 * 4"
  by (subst len_assemble_loop) (simp_all add: example_layer_frames len_eval padding_values)

text \<open>
  Claim C1. After the beat mixer has processed beat \<open>i\<close>, the stem of every instrument
  is claimed to have the duration \<open>(i + 1) \<times> beat_duration_ms\<close>, silence being appended at
  the beats where the instrument is inactive. The code extends the stem only inside the
  hit branch. The run below has one instrument with the row \<open>1 0 1 0\<close> at a beat of
  500 ms: after the last beat, index 3, its stem is 1000 ms long beside a loop of 2000 ms.
\<close>

theorem stem_misses_rest_beats:
  "map_sum id (\<lambda>(result, g). (loop_length result, stem_lengths result, pattern_rows result))
     (generate_rhythm env_no_samples ''pop'' [''kick''] 120 ''quarter'' 0 ''medium'' [] 4
        ''4/4'' ''straight'' (1 / 5) 100 [] 1 (sconst 0))
   = Inr (2000, [(''kick'', 1000)], [(''kick'', [1, 0, 1, 0])])
   \<and> calc_beat_duration 120 ''quarter'' ''straight'' = Inr 500
   \<and> (1000::int) \<noteq> (3 + 1) * 500"
  by (simp add: rhythm_run_pop beat_500 loop_pop example_stem_500)

text \<open>
  Claim C4. For every valid configuration the returned loop is claimed to have the
  duration \<open>pattern_length \<times> beat_duration_ms \<times> loop_repeats\<close> after the padding of lines
  526-528. The padding is applied once, and the silence it appends is itself cut to whole
  frames. With a pattern of 8 beats of 468 ms (128 bpm) and 31 repeats, each beat layer
  holds 20638 frames, the 248 layers are 116060 ms long, the 4 ms of padding add 176
  frames, and the loop is 116063 ms long where 116064 ms are expected.
\<close>

theorem loop_one_ms_short:
  "map_sum id (\<lambda>(result, g). loop_length result)
     (generate_rhythm env_no_samples ''edm'' [''kick''] 128 ''quarter'' 0 ''medium'' [] 8
        ''4/4'' ''straight'' (1 / 5) 100 [] 31 (sconst 0))
   = Inr 116063
   \<and> calc_beat_duration 128 ''quarter'' ''straight'' = Inr 468
   \<and> (8::int) * 468 * 31 = 116064"
  by (simp add: rhythm_run_edm beat_468 loop_edm)

end
